theory Spec2Isabelle
  imports Complex_Main "HOL-Library.Log_Nat"
begin

section \<open>Numbers\<close>

text \<open>
  The agent code computes with two kinds of numbers. A \<^verbatim>\<open>Big\<close> (big.js) is an exact
  decimal; it is modelled by the rational it denotes, \<^verbatim>\<open>plus\<close>, \<^verbatim>\<open>minus\<close> and
  \<^verbatim>\<open>times\<close> are exact, and \<^verbatim>\<open>div\<close> rounds to 20 decimal places, half away from
  zero (the library defaults \<^verbatim>\<open>Big.DP = 20\<close>, \<^verbatim>\<open>Big.RM = 1\<close>).

  A JavaScript \<^verbatim>\<open>number\<close> that the code produces is an IEEE-754 binary64 value; it is
  modelled by the rational it is exactly equal to. Every arithmetic operation rounds its
  exact result to the nearest binary64 value, ties to even; \<open>fl\<close> is that rounding
  (53 significant bits, gradual underflow below \<open>2 powi (- 1022)\<close>). Overflow to
  \<^verbatim>\<open>Infinity\<close> and \<^verbatim>\<open>NaN\<close> are outside the model.

  A \<^verbatim>\<open>number\<close> that the code receives and hands to \<^verbatim>\<open>new Big(n)\<close> is given by the
  decimal that \<^verbatim>\<open>Big\<close> reads from it (the shortest decimal that denotes the number, so
  the number written \<^verbatim>\<open>79.2\<close> is \<open>792 / 10\<close>). The comparisons the code makes on such
  a number (\<^verbatim>\<open>> 0\<close>, \<^verbatim>\<open>=== 0\<close>) have the same outcome on that decimal.

  Where the code hands to \<^verbatim>\<open>new Big(n)\<close> a \<^verbatim>\<open>number\<close> that the code itself has computed
  (the percentages of a tool result, read by the verifier), the number is a binary64 value
  and \<^verbatim>\<open>Big\<close> reads \<^verbatim>\<open>String(n)\<close>: the decimal with the fewest significant digits that
  rounds to the number, the closest to the number among those, which is
  \<open>Big_of_number\<close> below.
\<close>

type_synonym big = rat
type_synonym number = rat

definition ilog2 :: "rat \<Rightarrow> int" where
  \<comment> \<open>for \<open>0 < x\<close>: the exponent \<open>e\<close> with \<open>2 powi e \<le> x < 2 powi (e + 1)\<close>\<close>
  "ilog2 x = (let (a, b) = quotient_of x; e0 = bitlen a - bitlen b
              in if 2 powi e0 \<le> x then e0 else e0 - 1)"

definition round_even :: "rat \<Rightarrow> int" where
  "round_even q = (let f = \<lfloor>q\<rfloor>; r = q - of_int f
                   in if r < 1/2 then f else if 1/2 < r then f + 1
                      else if even f then f else f + 1)"

definition fl :: "rat \<Rightarrow> number" where
  "fl x = (if x = 0 then 0
           else let p = max (ilog2 \<bar>x\<bar> - 52) (- 1074)
                in of_int (round_even (x / 2 powi p)) * 2 powi p)"

definition lit :: "rat \<Rightarrow> number" where
  \<comment> \<open>the number a decimal literal of the source denotes\<close>
  "lit q = fl q"

definition js_add :: "number \<Rightarrow> number \<Rightarrow> number" where
  "js_add a b = fl (a + b)"

definition js_sub :: "number \<Rightarrow> number \<Rightarrow> number" where
  "js_sub a b = fl (a - b)"

definition js_mul :: "number \<Rightarrow> number \<Rightarrow> number" where
  "js_mul a b = fl (a * b)"

definition js_div :: "number \<Rightarrow> number \<Rightarrow> number" where
  \<comment> \<open>only used with a non-zero divisor\<close>
  "js_div a b = fl (a / b)"

definition Math_round :: "number \<Rightarrow> number" where
  \<comment> \<open>the nearest integer, a tie going up\<close>
  "Math_round x = of_int \<lfloor>x + 1/2\<rfloor>"

definition toNumber :: "big \<Rightarrow> number" where
  "toNumber b = fl b"

function decimal_length :: "int \<Rightarrow> int" where
  \<comment> \<open>the number of decimal digits of a positive integer\<close>
  "decimal_length n = (if 0 < n then decimal_length (n div 10) + 1 else 0)"
  by pat_completeness auto
termination
  by (relation "measure nat") auto

declare decimal_length.simps [simp del]

definition decimal_exponent :: "rat \<Rightarrow> int" where
  \<comment> \<open>for \<open>x \<noteq> 0\<close>: the \<open>n\<close> with \<open>10 powi (n - 1) \<le> \<bar>x\<bar> < 10 powi n\<close>. Below 1 the
      digits of \<open>\<lfloor>1 / \<bar>x\<bar>\<rfloor>\<close> give \<open>n\<close>, or \<open>n - 1\<close> when \<open>\<bar>x\<bar>\<close> is a power of ten\<close>
  "decimal_exponent x =
     (let a = \<bar>x\<bar>;
          n0 = (if 1 \<le> a then decimal_length \<lfloor>a\<rfloor> else 1 - decimal_length \<lfloor>1 / a\<rfloor>)
      in if 10 powi n0 \<le> a then n0 + 1 else n0)"

definition decimal_digits :: "nat \<Rightarrow> rat \<Rightarrow> rat" where
  \<comment> \<open>\<open>x\<close> rounded to \<open>k\<close> significant decimal digits, a tie going to the even digit\<close>
  "decimal_digits k x =
     (let e = decimal_exponent x - int k
      in of_int (round_even (x / 10 powi e)) * 10 powi e)"

definition Big_of_number :: "number \<Rightarrow> big" where
  \<comment> \<open>\<^verbatim>\<open>new Big(n)\<close> for a binary64 value \<open>n\<close>: \<^verbatim>\<open>String(n)\<close> has the fewest digits that
      round back to \<open>n\<close>, and 17 digits always do\<close>
  "Big_of_number x =
     (if x = 0 then 0
      else case find (\<lambda>k. fl (decimal_digits k x) = x) [1..<18] of
             Some k \<Rightarrow> decimal_digits k x
           | None \<Rightarrow> x)"

definition big_round :: "nat \<Rightarrow> rat \<Rightarrow> big" where
  \<comment> \<open>rounding to \<open>dp\<close> decimal places, half away from zero\<close>
  "big_round dp q = (if 0 \<le> q then of_int \<lfloor>q * 10 ^ dp + 1/2\<rfloor> / 10 ^ dp
                     else - (of_int \<lfloor>- q * 10 ^ dp + 1/2\<rfloor> / 10 ^ dp))"

definition big_div :: "big \<Rightarrow> big \<Rightarrow> big" where
  \<comment> \<open>\<^verbatim>\<open>x.div(y)\<close> for \<open>y \<noteq> 0\<close> (big.js throws on a zero divisor)\<close>
  "big_div x y = big_round 20 (x / y)"

section \<open>The response verifier: confidence\<close>

text \<open>
  \<^verbatim>\<open>computeConfidence\<close> of \<^verbatim>\<open>agent.verifier.ts\<close>: four tests in the order of the source,
  each returning a literal.
\<close>

definition computeConfidence :: "bool \<Rightarrow> bool \<Rightarrow> number \<Rightarrow> number \<Rightarrow> bool \<Rightarrow> number" where
  "computeConfidence hasErrors isPriceDataMissing toolsSucceeded toolsFailed hasHoldings =
     (if toolsFailed > 0 \<and> toolsSucceeded = 0 then lit (1/10)
      else if \<not> hasHoldings then lit (4/10)
      else if toolsFailed > 0 then lit (4/10)
      else if isPriceDataMissing \<or> hasErrors then lit (7/10)
      else 1)"

text \<open>
  The decision table in the words of the specification: rows of a condition and a value,
  the first row whose condition holds gives the result, \<open>1.0\<close> when none does.
\<close>

fun first_row :: "(bool \<times> number) list \<Rightarrow> number \<Rightarrow> number" where
  "first_row [] d = d"
| "first_row ((c, v) # rows) d = (if c then v else first_row rows d)"

definition confidence_table :: "bool \<Rightarrow> bool \<Rightarrow> number \<Rightarrow> number \<Rightarrow> bool \<Rightarrow> number" where
  "confidence_table hasErrors isPriceDataMissing toolsSucceeded toolsFailed hasHoldings =
     first_row
       [(toolsFailed > 0 \<and> toolsSucceeded = 0, lit (1/10)),
        (\<not> hasHoldings, lit (4/10)),
        (toolsFailed > 0, lit (4/10)),
        (isPriceDataMissing \<or> hasErrors, lit (7/10))]
       1"

section \<open>Data model\<close>

text \<open>
  The value objects of \<^verbatim>\<open>agent.types.ts\<close>. A field that may be \<^verbatim>\<open>null\<close> or
  \<^verbatim>\<open>undefined\<close> is an \<open>option\<close>. Field names that are Isabelle keywords or that
  several interfaces share carry a prefix.
\<close>

datatype ValuationMethod = market | cost_basis

record Timeframe =
  tf_start :: string
  tf_end :: string

record Money =
  currency :: string
  amount :: number

record HoldingRow =
  symbol :: string
  name :: "string option"
  quantity :: number
  costBasis :: "Money option"
  price :: "Money option"
  holding_value :: "Money option"
  assetClass :: "string option"

record AllocationRow =
  key :: string
  row_value :: Money
  percent :: number

record ResultHeader =
  accountId :: string
  timeframe :: Timeframe
  valuationMethod :: ValuationMethod
  asOf :: "string option"

record PortfolioSnapshotResult = ResultHeader +
  totalValue :: Money
  allocationBySymbol :: "AllocationRow list"
  allocationByAssetClass :: "AllocationRow list"
  holdings :: "HoldingRow list"
  isPriceDataMissing :: bool

record AllocationChange =
  change_type :: string
  change_symbol :: string
  change_amount :: Money

record SimulateAllocationResult = ResultHeader +
  originalTotalValue :: Money
  newTotalValue :: Money
  newAllocationBySymbol :: "AllocationRow list"
  result_notes :: "string list"

record ToolContext =
  userId :: string
  baseCurrency :: string
  impersonationId :: "string option"

text \<open>
  Modelled from the spec: the portfolio-data provider. Its interface
  (\<^verbatim>\<open>PortfolioService\<close>, \<^verbatim>\<open>PortfolioPosition\<close>) is imported by the tools and is
  not among the sources; the position fields are the ones the tools read
  (symbol, name, quantity, currency, marketPrice, investment, valueInBaseCurrency,
  assetClass). \<open>positions\<close> is the list \<^verbatim>\<open>Object.values(details.holdings)\<close> yields.
  A call of the provider either throws (\<open>Inl\<close> the error's message) or returns.
\<close>

record PortfolioPosition =
  pos_symbol :: string
  pos_name :: "string option"
  pos_quantity :: number
  pos_currency :: string
  marketPrice :: "number option"
  investment :: "number option"
  valueInBaseCurrency :: "number option"
  pos_assetClass :: "string option"

record PortfolioDetails =
  positions :: "PortfolioPosition list"
  details_hasErrors :: bool

record DetailsQuery =
  q_dateRange :: "string option"
  q_impersonationId :: "string option"
  q_userId :: string
  q_withSummary :: bool

type_synonym PortfolioService = "DetailsQuery \<Rightarrow> string + PortfolioDetails"

text \<open>
  Modelled as parameters: the platform's rendering of numbers in template strings
  (\<^verbatim>\<open>`${n}`\<close>, \<^verbatim>\<open>toFixed(2)\<close>).
\<close>

record js_format =
  number_toString :: "number \<Rightarrow> string"
  number_toFixed2 :: "number \<Rightarrow> string"
  big_toFixed2 :: "big \<Rightarrow> string"

section \<open>JavaScript idioms\<close>

definition nullish_or :: "'a option \<Rightarrow> 'a \<Rightarrow> 'a" where
  \<comment> \<open>\<^verbatim>\<open>x ?? d\<close>\<close>
  "nullish_or x d = (case x of None \<Rightarrow> d | Some v \<Rightarrow> v)"

definition truthy :: "number option \<Rightarrow> bool" where
  \<comment> \<open>a number in a condition: neither \<^verbatim>\<open>null\<close>, \<^verbatim>\<open>undefined\<close> nor zero\<close>
  "truthy x = (case x of None \<Rightarrow> False | Some v \<Rightarrow> v \<noteq> 0)"

text \<open>
  A \<^verbatim>\<open>Map\<close> keeps its keys in insertion order; \<^verbatim>\<open>set\<close> on a key that is present
  replaces the value in place.
\<close>

fun map_set :: "'k \<Rightarrow> 'v \<Rightarrow> ('k \<times> 'v) list \<Rightarrow> ('k \<times> 'v) list" where
  "map_set k v [] = [(k, v)]"
| "map_set k v ((k', v') # m) = (if k = k' then (k, v) # m else (k', v') # map_set k v m)"

definition map_get :: "('k \<times> 'v) list \<Rightarrow> 'k \<Rightarrow> 'v option" where
  "map_get m k = map_of m k"

section \<open>GetPerformanceTool.sampleChart\<close>

text \<open>
  The elements of the chart are objects, compared by identity (\<^verbatim>\<open>!==\<close>): the list holds
  their references, and equality on \<open>'a\<close> is identity. \<^verbatim>\<open>Math.ceil(n / maxPoints)\<close> is
  exact for array lengths.
\<close>

definition MAX_CHART_POINTS :: nat where
  "MAX_CHART_POINTS = 20"

definition sampleChart :: "'a list \<Rightarrow> nat \<Rightarrow> 'a list" where
  "sampleChart chart maxPoints =
     (if length chart \<le> maxPoints then chart
      else
        let step = nat \<lceil>(of_nat (length chart) :: rat) / of_nat maxPoints\<rceil>;
            sampled = map fst (filter (\<lambda>(x, i). i mod step = 0) (zip chart [0..<length chart]))
        in if length chart > 0 \<and> last sampled \<noteq> last chart
           then sampled @ [last chart]
           else sampled)"

section \<open>SimulateAllocationChangeTool\<close>

definition retained :: "PortfolioPosition \<Rightarrow> bool" where
  \<comment> \<open>\<^verbatim>\<open>pos.quantity > 0 || (pos.valueInBaseCurrency ?? 0) > 0\<close>\<close>
  "retained pos = (pos_quantity pos > 0 \<or> nullish_or (valueInBaseCurrency pos) 0 > 0)"

definition initial_valueMap :: "PortfolioPosition list \<Rightarrow> (string \<times> big) list" where
  "initial_valueMap ps =
     fold (\<lambda>pos m.
            if retained pos
            then map_set (pos_symbol pos)
                   (nullish_or (valueInBaseCurrency pos) (nullish_or (investment pos) 0)) m
            else m)
          ps []"

definition map_total :: "(string \<times> big) list \<Rightarrow> big" where
  \<comment> \<open>\<^verbatim>\<open>for (const val of valueMap.values()) originalTotal = originalTotal.plus(val)\<close>\<close>
  "map_total m = fold (\<lambda>(k, v) t. t + v) m 0"

record sim_state =
  valueMap :: "(string \<times> big) list"
  newTotal :: big
  sim_notes :: "string list"

definition buy_note :: "js_format \<Rightarrow> AllocationChange \<Rightarrow> string" where
  "buy_note F c =
     ''Simulated buying '' @ currency (change_amount c) @ '' ''
       @ number_toString F (amount (change_amount c)) @ '' of '' @ change_symbol c"

definition oversell_note :: "js_format \<Rightarrow> AllocationChange \<Rightarrow> big \<Rightarrow> string" where
  "oversell_note F c currentValue =
     ''Warning: Selling '' @ currency (change_amount c) @ '' ''
       @ number_toString F (amount (change_amount c)) @ '' of '' @ change_symbol c
       @ '' exceeds current value ('' @ big_toFixed2 F currentValue @ ''). Clamped to 0.''"

definition apply_change :: "js_format \<Rightarrow> AllocationChange \<Rightarrow> sim_state \<Rightarrow> sim_state" where
  "apply_change F c st =
     (let changeAmount = amount (change_amount c);
          currentValue = nullish_or (map_get (valueMap st) (change_symbol c)) 0
      in if change_type c = ''buy'' then
           st\<lparr>valueMap := map_set (change_symbol c) (currentValue + changeAmount) (valueMap st),
              newTotal := newTotal st + changeAmount,
              sim_notes := sim_notes st @ [buy_note F c]\<rparr>
         else if change_type c = ''sell'' then
           (let newValue = currentValue - changeAmount
            in if newValue < 0 then
                 st\<lparr>sim_notes := sim_notes st @ [oversell_note F c currentValue],
                    valueMap := map_set (change_symbol c) 0 (valueMap st),
                    newTotal := newTotal st - currentValue\<rparr>
               else
                 st\<lparr>valueMap := map_set (change_symbol c) newValue (valueMap st),
                    newTotal := newTotal st - changeAmount\<rparr>)
         else st)"

definition apply_changes :: "js_format \<Rightarrow> AllocationChange list \<Rightarrow> sim_state \<Rightarrow> sim_state" where
  "apply_changes F cs st = fold (apply_change F) cs st"

definition initial_state :: "PortfolioPosition list \<Rightarrow> sim_state" where
  "initial_state ps =
     \<lparr>valueMap = initial_valueMap ps, newTotal = map_total (initial_valueMap ps), sim_notes = []\<rparr>"

definition sim_percent :: "big \<Rightarrow> big \<Rightarrow> number" where
  "sim_percent v tot =
     (if tot > 0
      then js_div (Math_round (js_mul (toNumber (big_div v tot * 100)) 100)) 100
      else 0)"

definition new_allocation :: "string \<Rightarrow> sim_state \<Rightarrow> AllocationRow list" where
  \<comment> \<open>the rows pushed for the entries with a positive value, before sorting\<close>
  "new_allocation base st =
     map (\<lambda>(sym, v).
           \<lparr>key = sym, row_value = \<lparr>currency = base, amount = toNumber v\<rparr>,
            percent = sim_percent v (newTotal st)\<rparr>)
         (filter (\<lambda>(sym, v). v > 0) (valueMap st))"

definition sort_by_percent_desc :: "AllocationRow list \<Rightarrow> AllocationRow list" where
  \<comment> \<open>\<^verbatim>\<open>sort((a, b) => b.percent - a.percent)\<close>, a stable sort\<close>
  "sort_by_percent_desc rows = sort_key (\<lambda>r. - percent r) rows"

definition sim_price_missing :: "PortfolioPosition list \<Rightarrow> bool" where
  "sim_price_missing ps = list_ex (\<lambda>pos. marketPrice pos = Some 0 \<or> marketPrice pos = None) ps"

definition simulate_execute ::
  "js_format \<Rightarrow> string \<Rightarrow> PortfolioService \<Rightarrow> AllocationChange list \<Rightarrow> ToolContext
     \<Rightarrow> string + SimulateAllocationResult" where
  "simulate_execute F now getDetails changes ctx =
     (case getDetails \<lparr>q_dateRange = None, q_impersonationId = impersonationId ctx,
                        q_userId = userId ctx, q_withSummary = True\<rparr> of
        Inl err \<Rightarrow> Inl err
      | Inr details \<Rightarrow>
          let st0 = initial_state (positions details);
              st = apply_changes F changes st0;
              method = (if sim_price_missing (positions details) then cost_basis else market)
          in Inr \<lparr>accountId = ''default'',
                  timeframe = \<lparr>tf_start = '''', tf_end = now\<rparr>,
                  valuationMethod = method,
                  asOf = (if method = market then Some now else None),
                  originalTotalValue =
                    \<lparr>currency = baseCurrency ctx, amount = toNumber (newTotal st0)\<rparr>,
                  newTotalValue = \<lparr>currency = baseCurrency ctx, amount = toNumber (newTotal st)\<rparr>,
                  newAllocationBySymbol =
                    sort_by_percent_desc (new_allocation (baseCurrency ctx) st),
                  result_notes = sim_notes st\<rparr>)"

section \<open>GetPortfolioSnapshotTool\<close>

definition hasMissingPrice :: "PortfolioPosition \<Rightarrow> bool" where
  "hasMissingPrice pos =
     (marketPrice pos = Some 0 \<or> marketPrice pos = None
      \<or> valueInBaseCurrency pos = Some 0 \<or> valueInBaseCurrency pos = None)"

definition to_holding :: "string \<Rightarrow> PortfolioPosition \<Rightarrow> HoldingRow" where
  \<comment> \<open>the callback of \<^verbatim>\<open>.map\<close>, without its assignment to \<^verbatim>\<open>isPriceDataMissing\<close>\<close>
  "to_holding base pos =
     \<lparr>symbol = pos_symbol pos,
      name = pos_name pos,
      quantity = pos_quantity pos,
      costBasis = (if truthy (investment pos)
                   then Some \<lparr>currency = base, amount = nullish_or (investment pos) 0\<rparr>
                   else None),
      price = (if truthy (marketPrice pos)
               then Some \<lparr>currency = pos_currency pos, amount = nullish_or (marketPrice pos) 0\<rparr>
               else None),
      holding_value = (if truthy (valueInBaseCurrency pos)
                       then Some \<lparr>currency = base,
                                   amount = nullish_or (valueInBaseCurrency pos) 0\<rparr>
                       else None),
      assetClass = pos_assetClass pos\<rparr>"

definition holdingValue :: "HoldingRow \<Rightarrow> big" where
  \<comment> \<open>\<^verbatim>\<open>new Big(h.value?.amount ?? h.costBasis?.amount ?? 0)\<close>\<close>
  "holdingValue h =
     nullish_or (map_option amount (holding_value h))
       (nullish_or (map_option amount (costBasis h)) 0)"

definition total_of :: "HoldingRow list \<Rightarrow> big" where
  \<comment> \<open>\<^verbatim>\<open>holdings.reduce((sum, h) => sum.plus(...), new Big(0))\<close>\<close>
  "total_of hs = fold (\<lambda>h s. s + holdingValue h) hs 0"

definition round2 :: "number \<Rightarrow> number" where
  \<comment> \<open>\<^verbatim>\<open>Math.round(x * 100) / 100\<close>\<close>
  "round2 x = js_div (Math_round (js_mul x 100)) 100"

definition symbol_row :: "string \<Rightarrow> big \<Rightarrow> HoldingRow \<Rightarrow> AllocationRow" where
  "symbol_row base tot h =
     (let hv = holdingValue h;
          pct = (if tot > 0 then toNumber (big_div hv tot * 100) else 0)
      in \<lparr>key = symbol h,
          row_value = \<lparr>currency = base, amount = toNumber hv\<rparr>,
          percent = round2 pct\<rparr>)"

definition assetClassMap :: "HoldingRow list \<Rightarrow> (string \<times> big) list" where
  "assetClassMap hs =
     fold (\<lambda>h m.
            let cls = nullish_or (assetClass h) ''UNKNOWN''
            in map_set cls (nullish_or (map_get m cls) 0 + holdingValue h) m)
          hs []"

definition class_row :: "string \<Rightarrow> big \<Rightarrow> string \<times> big \<Rightarrow> AllocationRow" where
  "class_row base tot e =
     \<lparr>key = fst e,
      row_value = \<lparr>currency = base, amount = toNumber (snd e)\<rparr>,
      percent = (if tot > 0 then round2 (toNumber (big_div (snd e) tot * 100)) else 0)\<rparr>"

definition mapToSnapshot :: "string \<Rightarrow> PortfolioDetails \<Rightarrow> string \<Rightarrow> PortfolioSnapshotResult" where
  "mapToSnapshot now details base =
     (let kept = filter retained (positions details);
          missing = list_ex hasMissingPrice kept;
          hs = map (to_holding base) kept;
          tot = total_of hs;
          method = (if missing then cost_basis else market)
      in \<lparr>accountId = ''default'',
          timeframe = \<lparr>tf_start = '''', tf_end = now\<rparr>,
          valuationMethod = method,
          asOf = (if method = market then Some now else None),
          totalValue = \<lparr>currency = base, amount = toNumber tot\<rparr>,
          allocationBySymbol = map (symbol_row base tot) hs,
          allocationByAssetClass = map (class_row base tot) (assetClassMap hs),
          holdings = hs,
          isPriceDataMissing = missing\<rparr>)"

definition snapshot_execute ::
  "string \<Rightarrow> PortfolioService \<Rightarrow> string option \<Rightarrow> ToolContext
     \<Rightarrow> string + PortfolioSnapshotResult" where
  \<comment> \<open>the third argument is \<^verbatim>\<open>input.dateRange\<close>\<close>
  "snapshot_execute now getDetails dateRange ctx =
     (case getDetails \<lparr>q_dateRange = Some (nullish_or dateRange ''max''),
                        q_impersonationId = impersonationId ctx,
                        q_userId = userId ctx, q_withSummary = True\<rparr> of
        Inl err \<Rightarrow> Inl err
      | Inr details \<Rightarrow> Inr (mapToSnapshot now details (baseCurrency ctx)))"

section \<open>Test data of the repository\<close>

text \<open>
  \<^verbatim>\<open>MOCK_HOLDINGS\<close> and \<^verbatim>\<open>MOCK_PORTFOLIO_DETAILS\<close> of \<^verbatim>\<open>evals/run-evals.ts\<close> and
  \<^verbatim>\<open>DEFAULT_USER_CONTEXT\<close> of \<^verbatim>\<open>agent.service.spec.ts\<close>, with the fields the tools read.
\<close>

definition MOCK_HOLDINGS :: "PortfolioPosition list" where
  "MOCK_HOLDINGS =
     [\<lparr>pos_symbol = ''AAPL'', pos_name = Some ''Apple Inc.'', pos_quantity = 10,
       pos_currency = ''USD'', marketPrice = Some (1855 / 10), investment = Some 1500,
       valueInBaseCurrency = Some 1855, pos_assetClass = Some ''EQUITY''\<rparr>,
      \<lparr>pos_symbol = ''VTI'', pos_name = Some ''Vanguard Total Stock Market ETF'',
       pos_quantity = 8, pos_currency = ''USD'', marketPrice = Some 245,
       investment = Some 1800, valueInBaseCurrency = Some 1960,
       pos_assetClass = Some ''EQUITY''\<rparr>,
      \<lparr>pos_symbol = ''BND'', pos_name = Some ''Vanguard Total Bond Market ETF'',
       pos_quantity = 15, pos_currency = ''USD'', marketPrice = Some (792 / 10),
       investment = Some 1200, valueInBaseCurrency = Some 1188,
       pos_assetClass = Some ''FIXED_INCOME''\<rparr>]"

definition MOCK_PORTFOLIO_DETAILS :: PortfolioDetails where
  "MOCK_PORTFOLIO_DETAILS = \<lparr>positions = MOCK_HOLDINGS, details_hasErrors = False\<rparr>"

definition mock_getDetails :: PortfolioService where
  \<comment> \<open>\<^verbatim>\<open>getDetails: jest.fn().mockResolvedValue(MOCK_PORTFOLIO_DETAILS)\<close>\<close>
  "mock_getDetails q = Inr MOCK_PORTFOLIO_DETAILS"

definition DEFAULT_USER_CONTEXT :: ToolContext where
  "DEFAULT_USER_CONTEXT = \<lparr>userId = ''test-user-id'', baseCurrency = ''USD'', impersonationId = None\<rparr>"

definition sell_AAPL_2000 :: AllocationChange where
  "sell_AAPL_2000 =
     \<lparr>change_type = ''sell'', change_symbol = ''AAPL'',
      change_amount = \<lparr>currency = ''USD'', amount = 2000\<rparr>\<rparr>"

definition plain_format :: js_format where
  \<comment> \<open>renders the numbers of the example above\<close>
  "plain_format =
     \<lparr>number_toString = (\<lambda>n. if n = 2000 then ''2000'' else ''?''),
      number_toFixed2 = (\<lambda>n. ''?''),
      big_toFixed2 = (\<lambda>b. if b = 1855 then ''1855.00'' else ''?'')\<rparr>"


section \<open>Strings\<close>

text \<open>
  A string is a list of characters. Case is folded on the ASCII letters, the only
  characters the fixed patterns and keywords of the verifier contain; other characters
  are left as they are.
\<close>

definition lower_char :: "char \<Rightarrow> char" where
  "lower_char c = (let n = (of_char c :: nat) in if 65 \<le> n \<and> n \<le> 90 then char_of (n + 32) else c)"

definition toLowerCase :: "string \<Rightarrow> string" where
  "toLowerCase s = map lower_char s"

fun startsWith :: "string \<Rightarrow> string \<Rightarrow> bool" where
  "startsWith s [] = True"
| "startsWith [] (p # ps) = False"
| "startsWith (c # cs) (p # ps) = (c = p \<and> startsWith cs ps)"

fun str_includes :: "string \<Rightarrow> string \<Rightarrow> bool" where
  \<comment> \<open>\<^verbatim>\<open>s.includes(p)\<close>\<close>
  "str_includes [] p = (p = [])"
| "str_includes (c # cs) p = (startsWith (c # cs) p \<or> str_includes cs p)"

fun tails :: "string \<Rightarrow> string list" where
  "tails [] = [[]]"
| "tails (c # cs) = (c # cs) # tails cs"

text \<open>
  The regular expressions of \<^verbatim>\<open>FORBIDDEN_ADVICE_PATTERNS\<close> use literals, grouping with
  alternatives and \<^verbatim>\<open>?\<close>, under the flag \<^verbatim>\<open>i\<close>. \<open>rx_match r s\<close> lists what is left of
  \<open>s\<close> after each way of matching \<open>r\<close> at its start; \<^verbatim>\<open>pattern.test(s)\<close> holds when
  \<open>r\<close> matches at some position of \<open>s\<close>.
\<close>

datatype regex = Lit string | Seq regex regex | Alt regex regex | Opt regex

fun rx_match :: "regex \<Rightarrow> string \<Rightarrow> string list" where
  "rx_match (Lit p) s =
     (if startsWith (toLowerCase s) (toLowerCase p) then [drop (length p) s] else [])"
| "rx_match (Seq a b) s = concat (map (rx_match b) (rx_match a s))"
| "rx_match (Alt a b) s = rx_match a s @ rx_match b s"
| "rx_match (Opt a) s = rx_match a s @ [s]"

definition rx_test :: "regex \<Rightarrow> string \<Rightarrow> bool" where
  "rx_test r s = list_ex (\<lambda>t. rx_match r t \<noteq> []) (tails s)"

section \<open>The response verifier: checks\<close>

definition ALLOCATION_SUM_TOLERANCE :: number where
  "ALLOCATION_SUM_TOLERANCE = 1"

definition FORBIDDEN_ADVICE_PATTERNS :: "regex list" where
  "FORBIDDEN_ADVICE_PATTERNS =
     [Seq (Lit ''you should '')
        (Alt (Lit ''buy'') (Alt (Lit ''sell'') (Alt (Lit ''invest in'') (Lit ''divest from'')))),
      Seq (Lit ''I recommend '')
        (Alt (Lit ''buying'') (Alt (Lit ''selling'') (Alt (Lit ''investing'') (Lit ''purchasing'')))),
      Seq (Lit ''you must '') (Alt (Lit ''buy'') (Alt (Lit ''sell'') (Lit ''invest''))),
      Seq (Lit ''guaranteed '')
        (Alt (Seq (Lit ''return'') (Opt (Lit ''s'')))
           (Alt (Seq (Lit ''profit'') (Opt (Lit ''s''))) (Seq (Lit ''gain'') (Opt (Lit ''s''))))),
      Seq (Lit ''I '')
        (Seq (Alt (Lit ''advise'') (Lit ''suggest''))
           (Seq (Lit '' '')
              (Seq (Opt (Lit ''you ''))
                 (Alt (Lit ''buy'') (Alt (Lit ''sell'') (Lit ''purchase'')))))),
      Lit ''allocate exactly'']"

definition VALUATION_KEYWORDS :: "string list" where
  "VALUATION_KEYWORDS =
     [''cost basis'', ''cost-basis'', ''costbasis'',
      ''price data isn'' @ [CHR 0x27] @ ''t available'',
      ''price data is not available'', ''market price data is missing'', ''based on cost'']"

record VerificationResult =
  warnings :: "string list"
  confidenceAdjustment :: number

definition advice_warning :: string where
  "advice_warning =
     ''Response may contain financial advice language. The agent should provide educational analysis only, not specific buy/sell recommendations.''"

definition checkAdviceBoundary :: "string \<Rightarrow> VerificationResult" where
  \<comment> \<open>the loop stops at the first pattern that matches\<close>
  "checkAdviceBoundary answer =
     (if list_ex (\<lambda>pattern. rx_test pattern answer) FORBIDDEN_ADVICE_PATTERNS
      then \<lparr>warnings = [advice_warning], confidenceAdjustment = js_add 0 (lit (2/10))\<rparr>
      else \<lparr>warnings = [], confidenceAdjustment = 0\<rparr>)"

definition checkAllocationSum :: "js_format \<Rightarrow> AllocationRow list \<Rightarrow> VerificationResult" where
  "checkAllocationSum F allocations =
     (if length allocations = 0 then \<lparr>warnings = [], confidenceAdjustment = 0\<rparr>
      else
        let sum = fold (\<lambda>row acc. acc + Big_of_number (percent row)) allocations 0;
            diff = toNumber \<bar>sum - 100\<bar>
        in if diff > ALLOCATION_SUM_TOLERANCE
           then \<lparr>warnings =
                   [''Allocation percentages sum to '' @ big_toFixed2 F sum
                      @ ''%, which deviates from 100% by '' @ number_toFixed2 F diff
                      @ ''%. This may indicate a calculation error.''],
                 confidenceAdjustment = js_add 0 (lit (1/10))\<rparr>
           else \<lparr>warnings = [], confidenceAdjustment = 0\<rparr>)"

definition checkValuationLabel :: "string \<Rightarrow> VerificationResult" where
  "checkValuationLabel answer =
     (let mentionsCostBasis =
            list_ex (\<lambda>keyword. str_includes (toLowerCase answer) (toLowerCase keyword))
              VALUATION_KEYWORDS
      in if \<not> mentionsCostBasis
         then \<lparr>warnings =
                 [''Price data is missing for some holdings, but the response does not mention that values are based on cost basis. Users should be informed when market prices are unavailable.''],
               confidenceAdjustment = js_add 0 (lit (1/10))\<rparr>
         else \<lparr>warnings = [], confidenceAdjustment = 0\<rparr>)"

section \<open>Tool results\<close>

text \<open>A value of the type \<^verbatim>\<open>unknown\<close> that came from \<^verbatim>\<open>JSON.parse\<close>.\<close>

datatype json =
    JNull
  | JBool bool
  | JNum number
  | JStr string
  | JArr "json list"
  | JObj "(string \<times> json) list"

record PerformancePoint =
  point_date :: string
  point_value :: Money
  returnPercent :: "number option"

record PerformanceResult = ResultHeader +
  totalReturnPercent :: "number option"
  timeSeries :: "PerformancePoint list"
  reasonIfUnavailable :: "string option"

record MarketPriceRow =
  mp_symbol :: json
  mp_price :: Money
  mp_row_asOf :: string
  mp_row_source :: string

record MarketPricesResult =
  mp_rows :: "MarketPriceRow list"
  mp_asOf :: string
  mp_source :: string

text \<open>
  What an executor returns has the type \<^verbatim>\<open>unknown\<close>; the four tools of the repository
  return these four shapes. The orchestrator casts the result stored under
  \<^verbatim>\<open>getPortfolioSnapshot\<close> and reads its fields; a field that the stored object does not
  have reads as \<^verbatim>\<open>undefined\<close>.
\<close>

datatype tool_result =
    SnapshotResult PortfolioSnapshotResult
  | PerformanceOutcome PerformanceResult
  | SimulateResult SimulateAllocationResult
  | MarketPricesOutcome MarketPricesResult

fun field_allocationBySymbol :: "tool_result \<Rightarrow> AllocationRow list option" where
  "field_allocationBySymbol (SnapshotResult s) = Some (allocationBySymbol s)"
| "field_allocationBySymbol r = None"

fun field_allocationByAssetClass :: "tool_result \<Rightarrow> AllocationRow list option" where
  "field_allocationByAssetClass (SnapshotResult s) = Some (allocationByAssetClass s)"
| "field_allocationByAssetClass r = None"

fun field_isPriceDataMissing :: "tool_result \<Rightarrow> bool option" where
  "field_isPriceDataMissing (SnapshotResult s) = Some (isPriceDataMissing s)"
| "field_isPriceDataMissing r = None"

fun field_holdings_length :: "tool_result \<Rightarrow> nat option" where
  "field_holdings_length (SnapshotResult s) = Some (length (holdings s))"
| "field_holdings_length r = None"

fun field_totalValue :: "tool_result \<Rightarrow> Money option" where
  "field_totalValue (SnapshotResult s) = Some (totalValue s)"
| "field_totalValue r = None"

fun field_valuationMethod :: "tool_result \<Rightarrow> ValuationMethod option" where
  "field_valuationMethod (SnapshotResult s) = Some (valuationMethod s)"
| "field_valuationMethod (PerformanceOutcome p) = Some (valuationMethod p)"
| "field_valuationMethod (SimulateResult s) = Some (valuationMethod s)"
| "field_valuationMethod (MarketPricesOutcome m) = None"

fun field_asOf :: "tool_result \<Rightarrow> string option" where
  "field_asOf (SnapshotResult s) = asOf s"
| "field_asOf (PerformanceOutcome p) = asOf p"
| "field_asOf (SimulateResult s) = asOf s"
| "field_asOf (MarketPricesOutcome m) = Some (mp_asOf m)"

definition add_result :: "VerificationResult \<Rightarrow> VerificationResult \<Rightarrow> VerificationResult" where
  \<comment> \<open>\<^verbatim>\<open>warnings.push(...r.warnings); confidenceAdjustment += r.confidenceAdjustment\<close>\<close>
  "add_result acc r =
     \<lparr>warnings = warnings acc @ warnings r,
      confidenceAdjustment = js_add (confidenceAdjustment acc) (confidenceAdjustment r)\<rparr>"

definition verifyAgentResponse ::
  "js_format \<Rightarrow> string \<Rightarrow> (string \<times> tool_result) list \<Rightarrow> VerificationResult" where
  "verifyAgentResponse F answer toolResults =
     (let v0 = \<lparr>warnings = [], confidenceAdjustment = 0\<rparr>;
          v1 = add_result v0 (checkAdviceBoundary answer);
          snapshotResult = map_get toolResults ''getPortfolioSnapshot'';
          v2 = (case Option.bind snapshotResult field_allocationBySymbol of
                  Some rows \<Rightarrow> add_result v1 (checkAllocationSum F rows)
                | None \<Rightarrow> v1);
          v3 = (if Option.bind snapshotResult field_isPriceDataMissing = Some True
                then add_result v2 (checkValuationLabel answer)
                else v2)
      in v3)"

section \<open>Tool registry\<close>

record AgentToolDefinition =
  tool_name :: string
  description :: string
  input_schema :: json

text \<open>
  An executor is called with the tool's input and the context of the request; it returns
  a result or throws. \<open>Inl\<close> carries the message the orchestrator reads from what was
  thrown (\<^verbatim>\<open>error instanceof Error ? error.message : String(error)\<close>).
\<close>

type_synonym ToolExecutor = "json \<Rightarrow> ToolContext \<Rightarrow> string + tool_result"

record RegisteredTool =
  tool_definition :: AgentToolDefinition
  executor :: ToolExecutor
  enabled :: bool

type_synonym ToolRegistry = "(string \<times> RegisteredTool) list"

definition register :: "RegisteredTool \<Rightarrow> ToolRegistry \<Rightarrow> ToolRegistry" where
  "register t tools = map_set (tool_name (tool_definition t)) t tools"

definition getDefinitions :: "ToolRegistry \<Rightarrow> AgentToolDefinition list" where
  "getDefinitions tools = map tool_definition (filter enabled (map snd tools))"

definition getExecutor :: "ToolRegistry \<Rightarrow> string \<Rightarrow> ToolExecutor option" where
  "getExecutor tools n =
     (case map_get tools n of
        None \<Rightarrow> None
      | Some t \<Rightarrow> if \<not> enabled t then None else Some (executor t))"

definition isEnabled :: "ToolRegistry \<Rightarrow> string \<Rightarrow> bool" where
  "isEnabled tools n = nullish_or (map_option enabled (map_get tools n)) False"

definition getToolNames :: "ToolRegistry \<Rightarrow> string list" where
  "getToolNames tools = map (\<lambda>t. tool_name (tool_definition t)) (filter enabled (map snd tools))"

section \<open>Agent orchestrator\<close>

datatype ContentBlock =
    TextBlock string
  | ToolUseBlock string string json  \<comment> \<open>id, name, input\<close>
  | OtherBlock

record ToolResultBlockParam =
  tool_use_id :: string
  content :: string
  is_error :: "bool option"

datatype MessageContent =
    TextContent string
  | BlockContent "ContentBlock list"
  | ToolResultContent "ToolResultBlockParam list"

record MessageParam =
  role :: string
  message_content :: MessageContent

record ChatMessage =
  history_role :: string
  history_content :: string

record AgentChatRequest =
  message :: string
  conversationHistory :: "ChatMessage list option"

record ToolTraceRow =
  tool :: string
  ok :: bool
  ms :: int
  error :: "string option"

record ResponseData =
  data_valuationMethod :: ValuationMethod
  data_asOf :: "string option"
  data_totalValue :: "Money option"
  data_allocationBySymbol :: "AllocationRow list option"
  data_allocationByAssetClass :: "AllocationRow list option"

record AgentChatResponse =
  answer :: string
  data :: ResponseData
  toolTrace :: "ToolTraceRow list"
  confidence :: number
  response_warnings :: "string list"

text \<open>
  What a turn takes from outside: the configured API key; the language model, a function
  of the messages of a call that returns the content blocks of the response or throws
  (model, token limit, temperature, system prompt and tool definitions are the same in
  both calls of a turn); the clock, \<open>date_now k\<close> being the \<open>k\<close>-th reading of
  \<^verbatim>\<open>Date.now()\<close> in the turn; \<^verbatim>\<open>JSON.stringify\<close> on an error object and on a tool
  result; the rendering of numbers. Log output is left out.
\<close>

record chat_env =
  anthropicApiKey :: string
  llm :: "MessageParam list \<Rightarrow> string + ContentBlock list"
  date_now :: "nat \<Rightarrow> int"
  stringify_error :: "string \<Rightarrow> string"
  stringify_result :: "tool_result \<Rightarrow> string"
  format :: js_format

text \<open>
  The state of the loop over the requested tools. \<open>clock_reads\<close> counts the readings of
  the clock; \<open>executed\<close> is not a variable of the source: it records, in order, each call
  of \<^verbatim>\<open>executor.execute\<close> with the tool's name and input.
\<close>

record loop_state =
  ls_toolTrace :: "ToolTraceRow list"
  ls_toolResults :: "(string \<times> tool_result) list"
  toolsSucceeded :: nat
  toolsFailed :: nat
  toolResultBlocks :: "ToolResultBlockParam list"
  clock_reads :: nat
  executed :: "(string \<times> json) list"

definition is_tool_use :: "ContentBlock \<Rightarrow> bool" where
  "is_tool_use b = (case b of ToolUseBlock i n inp \<Rightarrow> True | _ \<Rightarrow> False)"

fun join :: "string \<Rightarrow> string list \<Rightarrow> string" where
  "join sep [] = []"
| "join sep [x] = x"
| "join sep (x # y # ys) = x @ sep @ join sep (y # ys)"

definition extractText :: "ContentBlock list \<Rightarrow> string" where
  "extractText blocks =
     join [CHR 0x0A] (concat (map (\<lambda>b. case b of TextBlock t \<Rightarrow> [t] | _ \<Rightarrow> []) blocks))"

definition buildErrorResponse :: "string \<Rightarrow> ToolTraceRow list \<Rightarrow> AgentChatResponse" where
  "buildErrorResponse msg trace =
     \<lparr>answer = msg,
      data = \<lparr>data_valuationMethod = market, data_asOf = None, data_totalValue = None,
              data_allocationBySymbol = None, data_allocationByAssetClass = None\<rparr>,
      toolTrace = trace,
      confidence = lit (1/10),
      response_warnings = []\<rparr>"

fun run_tool :: "chat_env \<Rightarrow> ToolRegistry \<Rightarrow> ToolContext \<Rightarrow> ContentBlock \<Rightarrow> loop_state \<Rightarrow> loop_state" where
  "run_tool E reg ctx (ToolUseBlock tid n inp) st =
     (let startMs = date_now E (clock_reads st);
          elapsed = date_now E (clock_reads st + 1) - startMs
      in case getExecutor reg n of
           None \<Rightarrow>
             (let errorMsg = ''Unknown or disabled tool: '' @ n
              in st\<lparr>toolsFailed := toolsFailed st + 1,
                    ls_toolTrace := ls_toolTrace st
                      @ [\<lparr>tool = n, ok = False, ms = elapsed, error = Some errorMsg\<rparr>],
                    toolResultBlocks := toolResultBlocks st
                      @ [\<lparr>tool_use_id = tid, content = stringify_error E errorMsg,
                          is_error = Some True\<rparr>],
                    clock_reads := clock_reads st + 2\<rparr>)
         | Some ex \<Rightarrow>
             (case ex inp ctx of
                Inr result \<Rightarrow>
                  st\<lparr>ls_toolResults := map_set n result (ls_toolResults st),
                     toolsSucceeded := toolsSucceeded st + 1,
                     ls_toolTrace := ls_toolTrace st
                       @ [\<lparr>tool = n, ok = True, ms = elapsed, error = None\<rparr>],
                     toolResultBlocks := toolResultBlocks st
                       @ [\<lparr>tool_use_id = tid, content = stringify_result E result,
                           is_error = None\<rparr>],
                     clock_reads := clock_reads st + 2,
                     executed := executed st @ [(n, inp)]\<rparr>
              | Inl errorMsg \<Rightarrow>
                  st\<lparr>toolsFailed := toolsFailed st + 1,
                     ls_toolTrace := ls_toolTrace st
                       @ [\<lparr>tool = n, ok = False, ms = elapsed, error = Some errorMsg\<rparr>],
                     toolResultBlocks := toolResultBlocks st
                       @ [\<lparr>tool_use_id = tid,
                           content = stringify_error E (''Tool execution failed: '' @ errorMsg),
                           is_error = Some True\<rparr>],
                     clock_reads := clock_reads st + 2,
                     executed := executed st @ [(n, inp)]\<rparr>))"
| "run_tool E reg ctx b st = st"

definition run_tools ::
  "chat_env \<Rightarrow> ToolRegistry \<Rightarrow> ToolContext \<Rightarrow> ContentBlock list \<Rightarrow> loop_state" where
  "run_tools E reg ctx toolUseBlocks =
     fold (run_tool E reg ctx) toolUseBlocks
       \<lparr>ls_toolTrace = [], ls_toolResults = [], toolsSucceeded = 0, toolsFailed = 0,
        toolResultBlocks = [], clock_reads = 0, executed = []\<rparr>"

definition request_messages :: "AgentChatRequest \<Rightarrow> MessageParam list" where
  "request_messages request =
     map (\<lambda>m. \<lparr>role = history_role m, message_content = TextContent (history_content m)\<rparr>)
         (nullish_or (conversationHistory request) [])
       @ [\<lparr>role = ''user'', message_content = TextContent (message request)\<rparr>]"

definition chat_failed :: "string \<Rightarrow> string" where
  "chat_failed errorMsg =
     ''I encountered an error while processing your request. Please try again. (''
       @ errorMsg @ '')''"

datatype effect = LlmCall "MessageParam list" | ToolCall string json

definition base_confidence :: "loop_state \<Rightarrow> number" where
  \<comment> \<open>\<^verbatim>\<open>baseConfidence\<close>, from the results and counters of the loop\<close>
  "base_confidence st =
     (let snapshotResult = map_get (ls_toolResults st) ''getPortfolioSnapshot'';
          priceMissing = nullish_or (Option.bind snapshotResult field_isPriceDataMissing) False;
          hasHoldings = (nullish_or (Option.bind snapshotResult field_holdings_length) 0 > 0);
          hasErrors = (case snapshotResult of Some r \<Rightarrow> False | None \<Rightarrow> toolsFailed st > 0)
      in computeConfidence hasErrors priceMissing (of_nat (toolsSucceeded st))
           (of_nat (toolsFailed st)) hasHoldings)"

definition final_response :: "chat_env \<Rightarrow> loop_state \<Rightarrow> ContentBlock list \<Rightarrow> AgentChatResponse" where
  \<comment> \<open>what the turn returns once the second call has answered\<close>
  "final_response E st content2 =
     (let answer = extractText content2;
          verification = verifyAgentResponse (format E) answer (ls_toolResults st);
          snapshotResult = map_get (ls_toolResults st) ''getPortfolioSnapshot'';
          baseConfidence = base_confidence st;
          finalConfidence = max 0 (js_sub baseConfidence (confidenceAdjustment verification))
      in \<lparr>answer = answer,
          data =
            \<lparr>data_valuationMethod =
               nullish_or (Option.bind snapshotResult field_valuationMethod) market,
             data_asOf = Option.bind snapshotResult field_asOf,
             data_totalValue = Option.bind snapshotResult field_totalValue,
             data_allocationBySymbol = Option.bind snapshotResult field_allocationBySymbol,
             data_allocationByAssetClass =
               Option.bind snapshotResult field_allocationByAssetClass\<rparr>,
          toolTrace = ls_toolTrace st,
          confidence = finalConfidence,
          response_warnings = warnings verification\<rparr>)"

definition chat_turn ::
  "chat_env \<Rightarrow> ToolRegistry \<Rightarrow> AgentChatRequest \<Rightarrow> ToolContext
     \<Rightarrow> AgentChatResponse \<times> effect list" where
  "chat_turn E reg request ctx =
     (if anthropicApiKey E = [] then
        (buildErrorResponse
           ''The portfolio analysis agent is not currently configured. Please set the ANTHROPIC_API_KEY environment variable.''
           [],
         [])
      else
        let messages = request_messages request
        in case llm E messages of
             Inl errorMsg \<Rightarrow> (buildErrorResponse (chat_failed errorMsg) [], [LlmCall messages])
           | Inr content1 \<Rightarrow>
               let toolUseBlocks = filter is_tool_use content1
               in if length toolUseBlocks = 0 then
                    (let textContent = extractText content1;
                         verification = verifyAgentResponse (format E) textContent []
                     in (\<lparr>answer = textContent,
                          data = \<lparr>data_valuationMethod = market, data_asOf = None,
                                  data_totalValue = None, data_allocationBySymbol = None,
                                  data_allocationByAssetClass = None\<rparr>,
                          toolTrace = [],
                          confidence = computeConfidence False False 0 0 True,
                          response_warnings = warnings verification\<rparr>,
                         [LlmCall messages]))
                  else
                    (let st = run_tools E reg ctx toolUseBlocks;
                         call2Messages = messages
                           @ [\<lparr>role = ''assistant'', message_content = BlockContent content1\<rparr>,
                              \<lparr>role = ''user'',
                               message_content = ToolResultContent (toolResultBlocks st)\<rparr>];
                         log = [LlmCall messages] @ map (\<lambda>(n, inp). ToolCall n inp) (executed st)
                                 @ [LlmCall call2Messages]
                     in case llm E call2Messages of
                          Inl errorMsg \<Rightarrow>
                            (buildErrorResponse (chat_failed errorMsg) (ls_toolTrace st), log)
                        | Inr content2 \<Rightarrow> (final_response E st content2, log)))"

definition chat :: "chat_env \<Rightarrow> ToolRegistry \<Rightarrow> AgentChatRequest \<Rightarrow> ToolContext \<Rightarrow> AgentChatResponse" where
  "chat E reg request ctx = fst (chat_turn E reg request ctx)"

text \<open>
  The outcome the specification gives for one requested tool: the tool's name, the
  success flag and the error string of its trace row.
\<close>

fun requested_outcome :: "ToolRegistry \<Rightarrow> ToolContext \<Rightarrow> ContentBlock \<Rightarrow> string \<times> bool \<times> string option" where
  "requested_outcome reg ctx (ToolUseBlock tid n inp) =
     (case getExecutor reg n of
        None \<Rightarrow> (n, False, Some (''Unknown or disabled tool: '' @ n))
      | Some ex \<Rightarrow>
          (case ex inp ctx of
             Inl errorMsg \<Rightarrow> (n, False, Some errorMsg)
           | Inr result \<Rightarrow> (n, True, None)))"
| "requested_outcome reg ctx b = ([], False, None)"

fun requested_call :: "ToolRegistry \<Rightarrow> ContentBlock \<Rightarrow> effect list" where
  "requested_call reg (ToolUseBlock tid n inp) =
     (if getExecutor reg n = None then [] else [ToolCall n inp])"
| "requested_call reg b = []"

definition trace_summary :: "ToolTraceRow \<Rightarrow> string \<times> bool \<times> string option" where
  "trace_summary r = (tool r, ok r, error r)"

section \<open>GetMarketPricesTool\<close>

text \<open>
  \<^verbatim>\<open>(input.symbols as string[]) ?? []\<close> followed by \<^verbatim>\<open>symbols.map(...)\<close>. The cast checks
  nothing: a missing or \<^verbatim>\<open>null\<close> member gives no rows, an array gives one row for each
  element, whatever the element is, and on any other value \<^verbatim>\<open>symbols.map\<close> is not a
  function and the call throws a \<^verbatim>\<open>TypeError\<close>, as does reading a member of \<^verbatim>\<open>null\<close>.
  The messages are those of Node.js.
\<close>

definition input_symbols :: "json \<Rightarrow> string + json list" where
  "input_symbols inp =
     (case inp of
        JObj members \<Rightarrow>
          (case map_of members ''symbols'' of
             None \<Rightarrow> Inr []
           | Some JNull \<Rightarrow> Inr []
           | Some (JArr xs) \<Rightarrow> Inr xs
           | Some other \<Rightarrow> Inl ''symbols.map is not a function'')
      | JNull \<Rightarrow>
          Inl (''Cannot read properties of null (reading '' @ [CHR 0x27] @ ''symbols''
                 @ [CHR 0x27] @ '')'')
      | other \<Rightarrow> Inr [])"

definition market_prices_execute :: "string \<Rightarrow> ToolExecutor" where
  "market_prices_execute now inp ctx =
     (case input_symbols inp of
        Inl err \<Rightarrow> Inl err
      | Inr symbols \<Rightarrow>
          Inr (MarketPricesOutcome
            \<lparr>mp_rows = map (\<lambda>s. \<lparr>mp_symbol = s, mp_price = \<lparr>currency = ''USD'', amount = 0\<rparr>,
                                 mp_row_asOf = now, mp_row_source = ''unavailable''\<rparr>)
                           symbols,
             mp_asOf = now,
             mp_source =
               ''Market prices tool is not currently enabled. Use portfolio snapshot data for available pricing.''\<rparr>))"

section \<open>Test doubles of the orchestrator's tests\<close>

text \<open>
  After \<^verbatim>\<open>agent.service.spec.ts\<close>: a portfolio service that rejects with
  \<^verbatim>\<open>Database connection failed\<close>, a first response that requests tools, a first response
  that answers directly with advisory language.
\<close>

definition failing_executor :: ToolExecutor where
  "failing_executor inp ctx = Inl ''Database connection failed''"

definition test_registry :: ToolRegistry where
  "test_registry =
     register \<lparr>tool_definition = \<lparr>tool_name = ''getPerformance'', description = [],
                                   input_schema = JObj []\<rparr>,
               executor = failing_executor, enabled = False\<rparr>
       (register \<lparr>tool_definition = \<lparr>tool_name = ''getMarketPrices'', description = [],
                                      input_schema = JObj []\<rparr>,
                  executor = market_prices_execute ''2026-02-01'', enabled = True\<rparr>
          (register \<lparr>tool_definition = \<lparr>tool_name = ''getPortfolioSnapshot'', description = [],
                                         input_schema = JObj []\<rparr>,
                     executor = failing_executor, enabled = True\<rparr>
             []))"

definition requested_tools :: "ContentBlock list" where
  "requested_tools =
     [ToolUseBlock ''tool_1'' ''nonExistentTool'' (JObj []),
      ToolUseBlock ''tool_2'' ''getPortfolioSnapshot'' (JObj []),
      ToolUseBlock ''tool_3'' ''getPerformance'' (JObj [(''dateRange'', JStr ''mtd'')]),
      ToolUseBlock ''tool_4'' ''getMarketPrices'' (JObj [(''symbols'', JArr [JStr ''AAPL''])])]"

definition planning_llm :: "MessageParam list \<Rightarrow> string + ContentBlock list" where
  "planning_llm messages =
     (if length messages = 1 then Inr requested_tools
      else Inr [TextBlock ''I was unable to use some of the tools.''])"

definition advising_llm :: "MessageParam list \<Rightarrow> string + ContentBlock list" where
  "advising_llm messages =
     Inr [TextBlock ''You should buy more AAPL because it has guaranteed returns.'']"

definition test_env :: "(MessageParam list \<Rightarrow> string + ContentBlock list) \<Rightarrow> chat_env" where
  "test_env model =
     \<lparr>anthropicApiKey = ''test-api-key'', llm = model, date_now = int,
      stringify_error = (\<lambda>msg. ''{\"error\":\"'' @ msg @ ''\"}''),
      stringify_result = (\<lambda>r. ''{}''),
      format = plain_format\<rparr>"

section \<open>Stream proxy: parsing the upstream event stream\<close>

definition nl :: char where
  "nl = CHR 0x0A"














text \<open>
  The stream in the words of the specification. The text is cut at every double-newline
  boundary, from left to right; the pieces before a boundary are the events, the piece after
  the last boundary is the partial tail.
\<close>

fun split_events :: "string \<Rightarrow> string list \<times> string" where
  "split_events (a # b # cs) =
     (if a = nl \<and> b = nl then (case split_events cs of (es, t) \<Rightarrow> ([] # es, t))
      else (case split_events (b # cs) of
              ([], t) \<Rightarrow> ([], a # t)
            | (e # es, t) \<Rightarrow> ((a # e) # es, t)))"
| "split_events cs = ([], cs)"





section \<open>WebSocket gateway: the upgrade handler\<close>

definition AGENT_WS_PATH :: string where
  "AGENT_WS_PATH = ''/api/v1/agent/ws''"

text \<open>
  Parameters of the handler: reading the \<^verbatim>\<open>token\<close> parameter of the query string
  (\<^verbatim>\<open>new URL(url, base).searchParams.get('token')\<close>, \<open>Inl\<close> when the constructor throws), and
  \<^verbatim>\<open>jwtService.verify\<close>, which throws or returns a payload, of which the handler reads
  \<^verbatim>\<open>id\<close>.
\<close>

record gateway_env =
  token_param :: "string \<Rightarrow> string \<Rightarrow> string + string option"
  jwt_verify :: "string \<Rightarrow> string + string option"

datatype socket_action =
    Destroy
  | Write string
  | HandleUpgrade string string  \<comment> \<open>user id, bearer token\<close>
  | Throw string

definition unauthorized :: "socket_action list" where
  "unauthorized = [Write (''HTTP/1.1 401 Unauthorized'' @ [CHR 0x0D, CHR 0x0A, CHR 0x0D, CHR 0x0A]), Destroy]"

definition on_upgrade :: "gateway_env \<Rightarrow> string option \<Rightarrow> string option \<Rightarrow> socket_action list" where
  \<comment> \<open>the arguments after the environment are \<^verbatim>\<open>request.url\<close> and \<^verbatim>\<open>request.headers.host\<close>\<close>
  "on_upgrade G request_url host =
     (let url = nullish_or request_url []
      in if \<not> startsWith url AGENT_WS_PATH then [Destroy]
         else
           case token_param G url (''http://'' @ nullish_or host ''localhost'') of
             Inl err \<Rightarrow> [Throw err]
           | Inr token \<Rightarrow>
               if token = None \<or> token = Some [] then unauthorized
               else
                 let t = nullish_or token [];
                     raw = (if startsWith t ''Bearer '' then drop 7 t else t)
                 in case jwt_verify G raw of
                      Inl err \<Rightarrow> unauthorized
                    | Inr payload_id \<Rightarrow>
                        if payload_id = None \<or> payload_id = Some [] then unauthorized
                        else
                          [HandleUpgrade (nullish_or payload_id [])
                             (if startsWith t ''Bearer '' then t else ''Bearer '' @ t)])"

definition request_path :: "string \<Rightarrow> string" where
  \<comment> \<open>the path of a request URL: what comes before the query string or fragment\<close>
  "request_path url = takeWhile (\<lambda>c. c \<noteq> CHR ''?'' \<and> c \<noteq> CHR ''#'') url"

text \<open>A gateway whose signed credential is the token \<^verbatim>\<open>good\<close> of the user \<^verbatim>\<open>u1\<close>.\<close>

definition test_gateway :: gateway_env where
  "test_gateway =
     \<lparr>token_param = (\<lambda>url base.
         if str_includes url ''?token=good'' then Inr (Some ''good'')
         else if str_includes url ''?token=bad'' then Inr (Some ''bad'')
         else Inr None),
      jwt_verify = (\<lambda>raw. if raw = ''good'' then Inr (Some ''u1'') else Inl ''invalid signature'')\<rparr>"







section \<open>Properties of the number model\<close>

lemma round_even_err: "\<bar>of_int (round_even q) - q\<bar> \<le> 1/2"
proof -
  have "of_int \<lfloor>q\<rfloor> \<le> q" "q < of_int \<lfloor>q\<rfloor> + 1" by linarith+
  then show ?thesis
    unfolding round_even_def Let_def by (simp split: if_splits)
qed

lemma bitlen_pow_bounds:
  assumes "0 < a"
  shows "(2::rat) powi (bitlen a - 1) \<le> of_int a" "of_int a < (2::rat) powi (bitlen a)"
proof -
  from bitlen_bounds[OF assms] have lo: "2 ^ nat (bitlen a - 1) \<le> a" and hi: "a < 2 ^ nat (bitlen a)" by auto
  have pos: "0 < bitlen a"
  proof (rule ccontr)
    assume "\<not> 0 < bitlen a"
    then have "nat (bitlen a) = 0" by simp
    with hi have "a < 1" by simp
    with assms show False by simp
  qed
  have "(2::rat) powi (bitlen a - 1) = 2 ^ nat (bitlen a - 1)" using pos by (simp add: power_int_def)
  also have "\<dots> = of_int (2 ^ nat (bitlen a - 1))" by simp
  also have "\<dots> \<le> of_int a" using lo of_int_le_iff by blast
  finally show "(2::rat) powi (bitlen a - 1) \<le> of_int a" .
  have "of_int a < (of_int (2 ^ nat (bitlen a)) :: rat)" using hi of_int_less_iff by blast
  also have "\<dots> = 2 powi (bitlen a)" using pos by (simp add: power_int_def)
  finally show "of_int a < (2::rat) powi (bitlen a)" .
qed

lemma ilog2_bounds:
  assumes "0 < x"
  shows "2 powi (ilog2 x) \<le> x" "x < 2 powi (ilog2 x + 1)"
proof -
  obtain a b where q: "quotient_of x = (a, b)" by (cases "quotient_of x")
  then have b: "0 < b" and x: "x = of_int a / of_int b"
    using quotient_of_denom_pos quotient_of_div by auto
  have a: "0 < a" using assms b x by (simp add: zero_less_divide_iff)
  note A = bitlen_pow_bounds[OF a] and B = bitlen_pow_bounds[OF b]
  define e0 where "e0 = bitlen a - bitlen b"
  have bpos: "(0::rat) < of_int b" using b by simp
  have up: "x < 2 powi (e0 + 1)"
  proof -
    have "of_int a / of_int b < 2 powi (bitlen a) / (of_int b :: rat)"
      using A(2) bpos by (rule divide_strict_right_mono)
    also have "\<dots> \<le> 2 powi (bitlen a) / 2 powi (bitlen b - 1)"
      using B(1) bpos by (intro divide_left_mono) (auto intro!: mult_pos_pos)
    finally have "x < 2 powi (bitlen a) / 2 powi (bitlen b - 1)" unfolding x .
    also have "\<dots> = 2 powi (bitlen a - (bitlen b - 1))"
      by (simp only: power_int_diff[of "2::rat", simplified])
    also have "bitlen a - (bitlen b - 1) = e0 + 1" unfolding e0_def by simp
    finally show ?thesis .
  qed
  have lo: "2 powi (e0 - 1) < x"
  proof -
    have p0: "(0::rat) < 2 powi (bitlen a - 1)" by simp
    have "2 powi (bitlen a - 1) / 2 powi (bitlen b) < 2 powi (bitlen a - 1) / (of_int b :: rat)"
      using B(2) bpos p0 by (intro divide_strict_left_mono) (auto intro!: mult_pos_pos)
    also have "\<dots> \<le> of_int a / of_int b"
      using A(1) bpos by (intro divide_right_mono) auto
    finally have "2 powi (bitlen a - 1) / 2 powi (bitlen b) < x" unfolding x .
    moreover have "2 powi (bitlen a - 1) / 2 powi (bitlen b) = (2::rat) powi (bitlen a - 1 - bitlen b)"
      by (simp only: power_int_diff[of "2::rat", simplified])
    moreover have "bitlen a - 1 - bitlen b = e0 - 1" unfolding e0_def by simp
    ultimately show ?thesis by simp
  qed
  have il: "ilog2 x = (if 2 powi e0 \<le> x then e0 else e0 - 1)"
    unfolding ilog2_def q e0_def by (simp add: Let_def)
  show "2 powi (ilog2 x) \<le> x" using lo il by (auto simp: less_imp_le)
  show "x < 2 powi (ilog2 x + 1)" using up il by (auto simp: not_le)
qed

lemma fl_err: "\<bar>fl x - x\<bar> \<le> (\<bar>x\<bar> + 1) / 2 ^ 53"
proof (cases "x = 0")
  case True
  then show ?thesis by (simp add: fl_def)
next
  case False
  define e where "e = ilog2 \<bar>x\<bar>"
  define p where "p = max (e - 52) (- 1074)"
  have pos: "0 < \<bar>x\<bar>" using False by simp
  have lo: "2 powi e \<le> \<bar>x\<bar>" unfolding e_def by (rule ilog2_bounds(1)[OF pos])
  have flx: "fl x = of_int (round_even (x / 2 powi p)) * 2 powi p"
    using False unfolding fl_def p_def e_def by (simp add: Let_def)
  have pp: "(0::rat) < 2 powi p" by simp
  have "\<bar>fl x - x\<bar> = \<bar>of_int (round_even (x / 2 powi p)) - x / 2 powi p\<bar> * 2 powi p"
  proof -
    have "fl x - x = (of_int (round_even (x / 2 powi p)) - x / 2 powi p) * 2 powi p"
      unfolding flx using pp by (simp add: algebra_simps)
    then show ?thesis using pp by (simp add: abs_mult)
  qed
  also have "\<dots> \<le> 1/2 * 2 powi p"
    using round_even_err[of "x / 2 powi p"] pp by (intro mult_right_mono) auto
  also have "\<dots> = 2 powi (p - 1)"
    by (simp add: power_int_diff)
  also have "\<dots> \<le> (\<bar>x\<bar> + 1) / 2 ^ 53"
  proof (cases "e - 52 \<ge> - 1074")
    case True
    then have "p - 1 = e - 53" unfolding p_def by simp
    then have "(2::rat) powi (p - 1) = 2 powi (e - 53)" by (simp only:)
    also have "\<dots> = 2 powi e / 2 powi 53" by (rule power_int_diff) simp
    also have "\<dots> = 2 powi e / 2 ^ 53" by (simp only: power_int_numeral)
    also have "\<dots> \<le> \<bar>x\<bar> / 2 ^ 53" using lo by (intro divide_right_mono) auto
    also have "\<dots> \<le> (\<bar>x\<bar> + 1) / 2 ^ 53" by (intro divide_right_mono) auto
    finally show ?thesis .
  next
    case False
    then have "p - 1 = - 1075" unfolding p_def by simp
    then have "(2::rat) powi (p - 1) = 2 powi (- 1075)" by (simp only:)
    also have "\<dots> \<le> 2 powi (- 53)" by (rule power_int_increasing) simp_all
    also have "\<dots> = 1 / 2 ^ 53"
      by (simp only: power_int_minus power_int_numeral inverse_eq_divide)
    also have "\<dots> \<le> (\<bar>x\<bar> + 1) / 2 ^ 53" by (intro divide_right_mono) auto
    finally show ?thesis .
  qed
  finally show ?thesis .
qed

lemma fl_close:
  assumes "\<bar>x\<bar> \<le> 20000"
  shows "\<bar>fl x - x\<bar> \<le> 3 / 10 ^ 12"
proof -
  have "\<bar>fl x - x\<bar> \<le> (\<bar>x\<bar> + 1) / 2 ^ 53" by (rule fl_err)
  also have "\<dots> \<le> 20001 / 2 ^ 53" using assms by (intro divide_right_mono) auto
  also have "\<dots> \<le> 3 / 10 ^ 12" by simp
  finally show ?thesis .
qed


lemma lit_tenth: "lit (1/10) = 3602879701896397 / 36028797018963968"
  unfolding lit_def by code_simp

lemma lit_four_tenths: "lit (2/5) = 3602879701896397 / 9007199254740992"
  unfolding lit_def by code_simp

lemma lit_seven_tenths: "lit (7/10) = 3152519739159347 / 4503599627370496"
  unfolding lit_def by code_simp

section \<open>computeConfidence is the decision table\<close>

text \<open>
  C9. For all inputs \<^verbatim>\<open>computeConfidence\<close> equals the decision table evaluated in the
  priority order: all tools failed and none succeeded gives 0.1; no holdings gives 0.4; any
  tool failed gives 0.4; price data missing or errors present gives 0.7; otherwise 1.0.
  The result always lies between 0 and 1.
\<close>

theorem computeConfidence_table:
  "computeConfidence errs missing succeeded failed nonEmpty =
     confidence_table errs missing succeeded failed nonEmpty
   \<and> 0 \<le> computeConfidence errs missing succeeded failed nonEmpty
   \<and> computeConfidence errs missing succeeded failed nonEmpty \<le> 1"
  unfolding computeConfidence_def confidence_table_def
  by (simp add: lit_tenth lit_four_tenths lit_seven_tenths)

section \<open>The simulation tool\<close>

lemma map_get_map_set:
  "map_get (map_set k v m) k' = (if k' = k then Some v else map_get m k')"
  unfolding map_get_def by (induction m) auto

lemma keys_map_set: "set (map fst (map_set k v m)) = insert k (set (map fst m))"
  by (induction k v m rule: map_set.induct) (simp_all add: insert_commute)

lemma distinct_map_set: "distinct (map fst m) \<Longrightarrow> distinct (map fst (map_set k v m))"
  by (induction m) (auto simp: keys_map_set[simplified])

lemma distinct_fold_map_set:
  "distinct (map fst m) \<Longrightarrow>
   distinct (map fst (fold (\<lambda>x m. if P x then map_set (kf x) (vf x) m else m) xs m))"
  by (induction xs arbitrary: m) (auto simp: distinct_map_set)

lemma distinct_initial_valueMap: "distinct (map fst (initial_valueMap ps))"
  unfolding initial_valueMap_def by (rule distinct_fold_map_set) simp

lemma distinct_apply_change:
  "distinct (map fst (valueMap st)) \<Longrightarrow> distinct (map fst (valueMap (apply_change F c st)))"
  unfolding apply_change_def by (simp add: Let_def distinct_map_set)

lemma distinct_apply_changes:
  "distinct (map fst (valueMap st)) \<Longrightarrow> distinct (map fst (valueMap (apply_changes F cs st)))"
  unfolding apply_changes_def
  by (induction cs arbitrary: st) (auto simp: distinct_apply_change)

lemma notes_apply_change_mono: "set (sim_notes st) \<subseteq> set (sim_notes (apply_change F c st))"
  unfolding apply_change_def by (auto simp: Let_def)

lemma notes_apply_changes_mono: "set (sim_notes st) \<subseteq> set (sim_notes (apply_changes F cs st))"
  unfolding apply_changes_def
proof (induction cs arbitrary: st)
  case Nil
  show ?case by simp
next
  case (Cons c cs)
  have "set (sim_notes st) \<subseteq> set (sim_notes (apply_change F c st))"
    by (rule notes_apply_change_mono)
  also have "\<dots> \<subseteq> set (sim_notes (fold (apply_change F) cs (apply_change F c st)))"
    by (rule Cons.IH)
  finally show ?case by simp
qed

lemma apply_changes_append:
  "apply_changes F (pre @ c # post) st = apply_changes F post (apply_change F c (apply_changes F pre st))"
  unfolding apply_changes_def by simp

lemma oversell_step:
  assumes "change_type c = ''sell''"
    and "nullish_or (map_get (valueMap st) (change_symbol c)) 0 < amount (change_amount c)"
  shows "apply_change F c st =
           st\<lparr>sim_notes := sim_notes st @ [oversell_note F c (nullish_or (map_get (valueMap st) (change_symbol c)) 0)],
              valueMap := map_set (change_symbol c) 0 (valueMap st),
              newTotal := newTotal st - nullish_or (map_get (valueMap st) (change_symbol c)) 0\<rparr>"
  using assms unfolding apply_change_def by (simp add: Let_def)

lemma keys_filter_distinct:
  "distinct (map fst m) \<Longrightarrow>
   set (map fst (filter (\<lambda>(s, v). P v) m)) = {s. \<exists>v. map_of m s = Some v \<and> P v}"
  by (induction m) (auto simp: image_iff)

lemma map_total_sum: "map_total m = sum_list (map snd m)"
proof -
  have "fold (\<lambda>(k, v) t. t + v) m a = a + sum_list (map snd m)" for a :: rat
    by (induction m arbitrary: a) (auto simp: algebra_simps)
  then show ?thesis unfolding map_total_def by simp
qed

lemma keys_new_allocation:
  "map key (new_allocation base st) = map fst (filter (\<lambda>(s, v). 0 < v) (valueMap st))"
  unfolding new_allocation_def by (induction "valueMap st" arbitrary: st) (auto simp: case_prod_beta comp_def)

lemma simulate_execute_result:
  assumes "getDetails \<lparr>q_dateRange = None, q_impersonationId = impersonationId ctx,
                         q_userId = userId ctx, q_withSummary = True\<rparr> = Inr details"
  shows "simulate_execute F now getDetails changes ctx =
           Inr \<lparr>accountId = ''default'',
                timeframe = \<lparr>tf_start = '''', tf_end = now\<rparr>,
                valuationMethod =
                  (if sim_price_missing (positions details) then cost_basis else market),
                asOf = (if sim_price_missing (positions details) then None else Some now),
                originalTotalValue =
                  \<lparr>currency = baseCurrency ctx,
                   amount = toNumber (newTotal (initial_state (positions details)))\<rparr>,
                newTotalValue =
                  \<lparr>currency = baseCurrency ctx,
                   amount = toNumber (newTotal
                     (apply_changes F changes (initial_state (positions details))))\<rparr>,
                newAllocationBySymbol =
                  sort_by_percent_desc (new_allocation (baseCurrency ctx)
                    (apply_changes F changes (initial_state (positions details)))),
                result_notes =
                  sim_notes (apply_changes F changes (initial_state (positions details)))\<rparr>"
  unfolding simulate_execute_def by (simp add: assms Let_def)

text \<open>
  C5. A sell whose amount exceeds the value tracked for its symbol when the change is
  applied does not make the tool fail. The step sets the symbol's value to exactly 0,
  appends a warning note, and takes from the running total the value tracked before the
  clamp, not the requested amount. The result that the tool returns is computed from the
  state after that step, and its notes contain the warning. When the sell is the last
  change, the notes of the result end with the warning, the symbol has no row in
  \<^verbatim>\<open>newAllocationBySymbol\<close>, and \<^verbatim>\<open>newTotalValue\<close> is the total before the sell minus
  the value tracked before the clamp, where the total before the sell is the one that the
  tool reports for the changes that precede it.
\<close>

theorem oversell_clamps_to_zero:
  assumes provider: "getDetails \<lparr>q_dateRange = None, q_impersonationId = impersonationId ctx,
                                  q_userId = userId ctx, q_withSummary = True\<rparr> = Inr details"
    and sell: "change_type c = ''sell''"
    and before: "st = apply_changes F pre (initial_state (positions details))"
    and cur: "cur = nullish_or (map_get (valueMap st) (change_symbol c)) 0"
    and exceeds: "cur < amount (change_amount c)"
  shows "(\<exists>r. simulate_execute F now getDetails (pre @ c # post) ctx = Inr r
              \<and> oversell_note F c cur \<in> set (result_notes r)
              \<and> result_notes r = sim_notes (apply_changes F post (apply_change F c st))
              \<and> amount (newTotalValue r)
                    = toNumber (newTotal (apply_changes F post (apply_change F c st)))
              \<and> newAllocationBySymbol r
                    = sort_by_percent_desc (new_allocation (baseCurrency ctx)
                        (apply_changes F post (apply_change F c st)))
              \<and> (post = [] \<longrightarrow>
                     result_notes r = sim_notes st @ [oversell_note F c cur]
                   \<and> amount (newTotalValue r) = toNumber (newTotal st - cur)
                   \<and> change_symbol c \<notin> set (map key (newAllocationBySymbol r))))
         \<and> (\<exists>r0. simulate_execute F now getDetails pre ctx = Inr r0
              \<and> amount (newTotalValue r0) = toNumber (newTotal st)
              \<and> result_notes r0 = sim_notes st)
         \<and> apply_change F c st =
               st\<lparr>sim_notes := sim_notes st @ [oversell_note F c cur],
                  valueMap := map_set (change_symbol c) 0 (valueMap st),
                  newTotal := newTotal st - cur\<rparr>
         \<and> map_get (valueMap (apply_change F c st)) (change_symbol c) = Some 0
         \<and> sim_notes (apply_change F c st) = sim_notes st @ [oversell_note F c cur]
         \<and> newTotal (apply_change F c st) = newTotal st - cur"
proof -
  let ?st' = "apply_change F c st"
  let ?end = "apply_changes F post ?st'"
  have step: "?st' =
           st\<lparr>sim_notes := sim_notes st @ [oversell_note F c cur],
              valueMap := map_set (change_symbol c) 0 (valueMap st),
              newTotal := newTotal st - cur\<rparr>"
    using oversell_step[OF sell, of st F] exceeds cur by simp
  have run: "apply_changes F (pre @ c # post) (initial_state (positions details)) = ?end"
    by (simp add: apply_changes_append before)
  have "oversell_note F c cur \<in> set (sim_notes ?st')"
    by (simp add: step)
  then have noted: "oversell_note F c cur \<in> set (sim_notes ?end)"
    using notes_apply_changes_mono[of ?st' F post] by auto
  have zero: "map_get (valueMap ?st') (change_symbol c) = Some 0"
    by (simp add: step map_get_map_set)
  have absent: "change_symbol c \<notin> set (map key (sort_by_percent_desc
        (new_allocation (baseCurrency ctx) ?st')))"
  proof -
    have d: "distinct (map fst (valueMap ?st'))"
      unfolding before
      by (intro distinct_apply_change distinct_apply_changes)
         (simp add: initial_state_def distinct_initial_valueMap)
    have "set (map key (sort_by_percent_desc (new_allocation (baseCurrency ctx) ?st')))
          = set (map key (new_allocation (baseCurrency ctx) ?st'))"
      unfolding sort_by_percent_desc_def by simp
    also have "\<dots> = set (map fst (filter (\<lambda>(s, v). 0 < v) (valueMap ?st')))"
      by (simp only: keys_new_allocation)
    also have "\<dots> = {s. \<exists>v. map_get (valueMap ?st') s = Some v \<and> 0 < v}"
      unfolding map_get_def by (rule keys_filter_distinct[OF d])
    finally show ?thesis using zero by simp
  qed
  have last_change: "post = [] \<longrightarrow>
         sim_notes ?end = sim_notes st @ [oversell_note F c cur]
       \<and> toNumber (newTotal ?end) = toNumber (newTotal st - cur)
       \<and> change_symbol c \<notin> set (map key (sort_by_percent_desc
             (new_allocation (baseCurrency ctx) ?end)))"
  proof
    assume "post = []"
    then have e: "?end = ?st'" by (simp add: apply_changes_def)
    have "sim_notes ?st' = sim_notes st @ [oversell_note F c cur]"
      and "newTotal ?st' = newTotal st - cur"
      by (simp_all add: step)
    then show "sim_notes ?end = sim_notes st @ [oversell_note F c cur]
       \<and> toNumber (newTotal ?end) = toNumber (newTotal st - cur)
       \<and> change_symbol c \<notin> set (map key (sort_by_percent_desc
             (new_allocation (baseCurrency ctx) ?end)))"
      unfolding e using absent by simp
  qed
  have result: "\<exists>r. simulate_execute F now getDetails (pre @ c # post) ctx = Inr r
              \<and> oversell_note F c cur \<in> set (result_notes r)
              \<and> result_notes r = sim_notes ?end
              \<and> amount (newTotalValue r) = toNumber (newTotal ?end)
              \<and> newAllocationBySymbol r
                    = sort_by_percent_desc (new_allocation (baseCurrency ctx) ?end)
              \<and> (post = [] \<longrightarrow>
                     result_notes r = sim_notes st @ [oversell_note F c cur]
                   \<and> amount (newTotalValue r) = toNumber (newTotal st - cur)
                   \<and> change_symbol c \<notin> set (map key (newAllocationBySymbol r)))"
    unfolding simulate_execute_result[where getDetails = getDetails and ctx = ctx and details = details, OF provider] run
    using noted last_change by simp
  have prefix: "\<exists>r0. simulate_execute F now getDetails pre ctx = Inr r0
              \<and> amount (newTotalValue r0) = toNumber (newTotal st)
              \<and> result_notes r0 = sim_notes st"
    unfolding simulate_execute_result[where getDetails = getDetails and ctx = ctx and details = details, OF provider] before by simp
  have total: "newTotal ?st' = newTotal st - cur"
    and appended: "sim_notes ?st' = sim_notes st @ [oversell_note F c cur]"
    by (simp_all add: step)
  show ?thesis
    using result prefix step zero appended total by blast
qed

theorem oversell_clamps_to_zero_witness:
  "change_type sell_AAPL_2000 = ''sell''
   \<and> nullish_or (map_get (valueMap (initial_state MOCK_HOLDINGS)) ''AAPL'') 0 = 1855
   \<and> (1855 :: rat) < amount (change_amount sell_AAPL_2000)
   \<and> (\<exists>r. simulate_execute plain_format ''2026-02-01'' mock_getDetails [sell_AAPL_2000]
               DEFAULT_USER_CONTEXT = Inr r
            \<and> result_notes r
                 = [''Warning: Selling USD 2000 of AAPL exceeds current value (1855.00). Clamped to 0.'']
            \<and> amount (newTotalValue r) = 3148
            \<and> ''AAPL'' \<notin> set (map key (newAllocationBySymbol r)))
   \<and> (\<exists>r0. simulate_execute plain_format ''2026-02-01'' mock_getDetails []
               DEFAULT_USER_CONTEXT = Inr r0
            \<and> amount (newTotalValue r0) = 5003 \<and> result_notes r0 = [])
   \<and> map_get (valueMap (apply_change plain_format sell_AAPL_2000 (initial_state MOCK_HOLDINGS)))
         ''AAPL'' = Some 0
   \<and> newTotal (initial_state MOCK_HOLDINGS) = 5003
   \<and> newTotal (apply_change plain_format sell_AAPL_2000 (initial_state MOCK_HOLDINGS)) = 3148"
proof -
  have provider: "mock_getDetails \<lparr>q_dateRange = None,
        q_impersonationId = impersonationId DEFAULT_USER_CONTEXT,
        q_userId = userId DEFAULT_USER_CONTEXT, q_withSummary = True\<rparr> = Inr MOCK_PORTFOLIO_DETAILS"
    by (simp add: mock_getDetails_def)
  have sell: "change_type sell_AAPL_2000 = ''sell''" by (simp add: sell_AAPL_2000_def)
  have sym: "change_symbol sell_AAPL_2000 = ''AAPL''" by (simp add: sell_AAPL_2000_def)
  have before: "initial_state MOCK_HOLDINGS
      = apply_changes plain_format [] (initial_state (positions MOCK_PORTFOLIO_DETAILS))"
    by (simp add: apply_changes_def MOCK_PORTFOLIO_DETAILS_def)
  have cur0: "nullish_or (map_get (valueMap (initial_state MOCK_HOLDINGS)) ''AAPL'') 0 = 1855"
    by code_simp
  have cur: "1855 = nullish_or (map_get (valueMap (initial_state MOCK_HOLDINGS))
      (change_symbol sell_AAPL_2000)) 0"
    by (simp only: sym cur0)
  have exceeds: "(1855 :: rat) < amount (change_amount sell_AAPL_2000)"
    by (simp add: sell_AAPL_2000_def)
  have rendered: "oversell_note plain_format sell_AAPL_2000 1855
     = ''Warning: Selling USD 2000 of AAPL exceeds current value (1855.00). Clamped to 0.''"
    by (simp add: oversell_note_def plain_format_def sell_AAPL_2000_def)
  have tot: "newTotal (initial_state MOCK_HOLDINGS) = 5003" by code_simp
  have none: "sim_notes (initial_state MOCK_HOLDINGS) = []" by (simp add: initial_state_def)
  have n1: "toNumber 3148 = 3148" by code_simp
  have n0: "toNumber 5003 = 5003" by code_simp
  note inst = oversell_clamps_to_zero[where getDetails = mock_getDetails
        and ctx = DEFAULT_USER_CONTEXT
        and details = MOCK_PORTFOLIO_DETAILS and c = sell_AAPL_2000
        and st = "initial_state MOCK_HOLDINGS" and F = plain_format and pre = "[]"
        and cur = 1855 and now = "''2026-02-01''" and post = "[]",
        OF provider sell before cur exceeds]
  have r: "\<exists>r. simulate_execute plain_format ''2026-02-01'' mock_getDetails
                 ([] @ sell_AAPL_2000 # []) DEFAULT_USER_CONTEXT = Inr r
            \<and> result_notes r = sim_notes (initial_state MOCK_HOLDINGS)
                 @ [oversell_note plain_format sell_AAPL_2000 1855]
            \<and> amount (newTotalValue r)
                 = toNumber (newTotal (initial_state MOCK_HOLDINGS) - 1855)
            \<and> change_symbol sell_AAPL_2000 \<notin> set (map key (newAllocationBySymbol r))"
    using inst by blast
  have r0: "\<exists>r0. simulate_execute plain_format ''2026-02-01'' mock_getDetails []
               DEFAULT_USER_CONTEXT = Inr r0
            \<and> amount (newTotalValue r0) = toNumber (newTotal (initial_state MOCK_HOLDINGS))
            \<and> result_notes r0 = sim_notes (initial_state MOCK_HOLDINGS)"
    using inst by blast
  have z: "map_get (valueMap (apply_change plain_format sell_AAPL_2000
        (initial_state MOCK_HOLDINGS))) (change_symbol sell_AAPL_2000) = Some 0"
    using inst by blast
  have t: "newTotal (apply_change plain_format sell_AAPL_2000 (initial_state MOCK_HOLDINGS))
        = newTotal (initial_state MOCK_HOLDINGS) - 1855"
    using inst by blast
  show ?thesis
    using r r0 z t by (simp add: sell cur0 exceeds rendered sym tot none n0 n1)
qed

text \<open>
  C10. The keys of \<^verbatim>\<open>newAllocationBySymbol\<close> are exactly the symbols whose value after
  the changes is strictly positive, so a symbol sold down to zero is left out; the
  original total is the sum over every symbol of the current portfolio.
\<close>

theorem zero_value_symbols_omitted:
  assumes provider: "getDetails \<lparr>q_dateRange = None, q_impersonationId = impersonationId ctx,
                                  q_userId = userId ctx, q_withSummary = True\<rparr> = Inr details"
  shows "\<exists>r. simulate_execute F now getDetails changes ctx = Inr r
           \<and> set (map key (newAllocationBySymbol r))
               = {s. \<exists>v. map_get (valueMap (apply_changes F changes (initial_state (positions details)))) s = Some v
                          \<and> 0 < v}
           \<and> amount (originalTotalValue r)
               = toNumber (sum_list (map snd (initial_valueMap (positions details))))"
proof -
  let ?st = "apply_changes F changes (initial_state (positions details))"
  have d: "distinct (map fst (valueMap ?st))"
    by (rule distinct_apply_changes) (simp add: initial_state_def distinct_initial_valueMap)
  have "set (map key (sort_by_percent_desc (new_allocation (baseCurrency ctx) ?st)))
        = set (map key (new_allocation (baseCurrency ctx) ?st))"
    unfolding sort_by_percent_desc_def by simp
  also have "\<dots> = set (map fst (filter (\<lambda>(s, v). 0 < v) (valueMap ?st)))"
    by (simp only: keys_new_allocation)
  also have "\<dots> = {s. \<exists>v. map_get (valueMap ?st) s = Some v \<and> 0 < v}"
    unfolding map_get_def by (rule keys_filter_distinct[OF d])
  finally have "set (map key (sort_by_percent_desc (new_allocation (baseCurrency ctx) ?st)))
        = {s. \<exists>v. map_get (valueMap ?st) s = Some v \<and> 0 < v}" .
  then show ?thesis
    unfolding simulate_execute_def
    by (simp add: provider Let_def initial_state_def map_total_sum)
qed

theorem zero_value_symbols_omitted_witness:
  "\<exists>r. simulate_execute plain_format ''2026-02-01'' mock_getDetails [sell_AAPL_2000]
          DEFAULT_USER_CONTEXT = Inr r
       \<and> set (map key (newAllocationBySymbol r)) = {''VTI'', ''BND''}
       \<and> amount (originalTotalValue r) = 5003"
proof -
  have provider: "mock_getDetails \<lparr>q_dateRange = None,
        q_impersonationId = impersonationId DEFAULT_USER_CONTEXT,
        q_userId = userId DEFAULT_USER_CONTEXT, q_withSummary = True\<rparr> = Inr MOCK_PORTFOLIO_DETAILS"
    by (simp add: mock_getDetails_def)
  have st: "valueMap (apply_changes plain_format [sell_AAPL_2000]
               (initial_state (positions MOCK_PORTFOLIO_DETAILS)))
            = [(''AAPL'', 0), (''VTI'', 1960), (''BND'', 1188)]"
    by code_simp
  have keys: "{s. \<exists>v. map_get [(''AAPL'', 0::rat), (''VTI'', 1960), (''BND'', 1188)] s = Some v \<and> 0 < v}
        = {''VTI'', ''BND''}"
    by (auto simp: map_get_def split: if_splits)
  have tot: "toNumber (sum_list (map snd (initial_valueMap (positions MOCK_PORTFOLIO_DETAILS)))) = 5003"
    by code_simp
  show ?thesis
    using zero_value_symbols_omitted[where getDetails = mock_getDetails
        and ctx = DEFAULT_USER_CONTEXT and details = MOCK_PORTFOLIO_DETAILS
        and F = plain_format and now = "''2026-02-01''" and changes = "[sell_AAPL_2000]",
        OF provider]
    by (simp only: st keys tot)
qed

section \<open>The snapshot tool: valuation method\<close>

text \<open>
  C2. In every result of \<^verbatim>\<open>mapToSnapshot\<close> the valuation method is \<^verbatim>\<open>cost_basis\<close>
  exactly when some retained position (quantity or value above zero) has a market price
  or a value that is null or zero, which shows in the result as a holding without price
  or without value; \<^verbatim>\<open>asOf\<close> is null exactly then, and the current date otherwise.
\<close>

theorem valuationMethod_iff_missing_price:
  "(valuationMethod (mapToSnapshot now details base) = cost_basis
      \<longleftrightarrow> (\<exists>pos \<in> set (positions details).
             (pos_quantity pos > 0 \<or> (\<exists>v. valueInBaseCurrency pos = Some v \<and> v > 0))
             \<and> (marketPrice pos = None \<or> marketPrice pos = Some 0
                \<or> valueInBaseCurrency pos = None \<or> valueInBaseCurrency pos = Some 0)))
   \<and> (valuationMethod (mapToSnapshot now details base) = cost_basis
      \<longleftrightarrow> (\<exists>h \<in> set (holdings (mapToSnapshot now details base)).
             price h = None \<or> holding_value h = None))
   \<and> (asOf (mapToSnapshot now details base) = None
      \<longleftrightarrow> valuationMethod (mapToSnapshot now details base) = cost_basis)
   \<and> asOf (mapToSnapshot now details base)
      = (if valuationMethod (mapToSnapshot now details base) = cost_basis then None else Some now)"
proof -
  have r: "retained pos \<longleftrightarrow> (pos_quantity pos > 0 \<or> (\<exists>v. valueInBaseCurrency pos = Some v \<and> v > 0))" for pos
    unfolding retained_def nullish_or_def by (cases "valueInBaseCurrency pos") auto
  have m: "hasMissingPrice pos \<longleftrightarrow> (price (to_holding base pos) = None \<or> holding_value (to_holding base pos) = None)" for pos
    unfolding hasMissingPrice_def to_holding_def truthy_def
    by (cases "marketPrice pos"; cases "valueInBaseCurrency pos") auto
  have a: "valuationMethod (mapToSnapshot now details base) = cost_basis
      \<longleftrightarrow> list_ex hasMissingPrice (filter retained (positions details))"
    unfolding mapToSnapshot_def by (simp add: Let_def)
  have b: "holdings (mapToSnapshot now details base) = map (to_holding base) (filter retained (positions details))"
    unfolding mapToSnapshot_def by (simp add: Let_def)
  have c: "asOf (mapToSnapshot now details base)
      = (if valuationMethod (mapToSnapshot now details base) = cost_basis then None else Some now)"
    unfolding mapToSnapshot_def by (simp add: Let_def)
  have 1: "list_ex hasMissingPrice (filter retained (positions details))
     \<longleftrightarrow> (\<exists>pos \<in> set (positions details).
             (pos_quantity pos > 0 \<or> (\<exists>v. valueInBaseCurrency pos = Some v \<and> v > 0))
             \<and> (marketPrice pos = None \<or> marketPrice pos = Some 0
                \<or> valueInBaseCurrency pos = None \<or> valueInBaseCurrency pos = Some 0))"
    unfolding list_ex_iff using r by (auto simp: hasMissingPrice_def)
  have 2: "list_ex hasMissingPrice (filter retained (positions details))
     \<longleftrightarrow> (\<exists>h \<in> set (holdings (mapToSnapshot now details base)). price h = None \<or> holding_value h = None)"
    unfolding b list_ex_iff using m by auto
  show ?thesis
    using a 1 2 c by simp
qed

section \<open>Downsampling of the performance chart\<close>

text \<open>
  C6. On a chart of 40 distinct points \<^verbatim>\<open>sampleChart\<close> keeps every second point, 20
  of them, and then appends the last point: 21 points, one more than
  \<^verbatim>\<open>MAX_CHART_POINTS\<close>.
\<close>

theorem sampleChart_exceeds_maxPoints:
  "sampleChart [0..<40] MAX_CHART_POINTS
     = [0, 2, 4, 6, 8, 10, 12, 14, 16, 18, 20, 22, 24, 26, 28, 30, 32, 34, 36, 38, 39]
   \<and> length (sampleChart [0..<40] MAX_CHART_POINTS) = 21"
  by code_simp

lemma sampleChart_short: "length chart \<le> maxPoints \<Longrightarrow> sampleChart chart maxPoints = chart"
  by (simp add: sampleChart_def)

lemma sampleChart_keeps_last:
  "chart \<noteq> [] \<Longrightarrow> last (sampleChart chart maxPoints) = last chart"
  by (simp add: sampleChart_def Let_def)

lemma filter_snd:
  "map snd (filter (\<lambda>(x, i). P i) zs) = filter P (map snd zs)"
  by (induction zs) auto

lemma length_filter_zip_index:
  "length (filter (\<lambda>(x, i). P i) (zip xs [0..<length xs])) = length (filter P [0..<length xs])"
proof -
  have "length (filter (\<lambda>(x, i). P i) (zip xs [0..<length xs]))
        = length (map snd (filter (\<lambda>(x, i). P i) (zip xs [0..<length xs])))"
    by simp
  also have "\<dots> = length (filter P (map snd (zip xs [0..<length xs])))"
    by (simp only: filter_snd)
  finally show ?thesis by simp
qed

lemma count_multiples_le:
  assumes s: "0 < s" and n: "n \<le> s * m"
  shows "length (filter (\<lambda>i. i mod s = 0) [0..<n]) \<le> m"
proof -
  let ?A = "{i. i < n \<and> i mod s = 0}"
  have "length (filter (\<lambda>i. i mod s = 0) [0..<n]) = card (set (filter (\<lambda>i. i mod s = 0) [0..<n]))"
    by (rule distinct_card[symmetric]) simp
  also have "set (filter (\<lambda>i. i mod s = 0) [0..<n]) = ?A" by auto
  also have "card ?A \<le> card {..<m}"
  proof (rule card_inj_on_le[where f = "\<lambda>i. i div s"])
    show "inj_on (\<lambda>i. i div s) ?A"
    proof (rule inj_onI)
      fix x y assume "x \<in> ?A" "y \<in> ?A" "x div s = y div s"
      then have "x mod s = y mod s" by simp
      with \<open>x div s = y div s\<close> show "x = y" by (metis div_mult_mod_eq)
    qed
    show "(\<lambda>i. i div s) ` ?A \<subseteq> {..<m}"
    proof
      fix j assume "j \<in> (\<lambda>i. i div s) ` ?A"
      then obtain i where i: "i < n" and j: "j = i div s" by auto
      have "i < s * m" using i n by simp
      then show "j \<in> {..<m}" unfolding j using s
        by (simp add: less_mult_imp_div_less mult.commute)
    qed
    show "finite {..<m}" by simp
  qed
  finally show ?thesis by simp
qed

lemma ceil_stride:
  assumes "0 < m"
  shows "n \<le> nat \<lceil>(of_nat n :: rat) / of_nat m\<rceil> * m"
proof -
  have "(of_nat n :: rat) / of_nat m \<le> of_int \<lceil>(of_nat n :: rat) / of_nat m\<rceil>" by simp
  then have "(of_nat n :: rat) / of_nat m * of_nat m
      \<le> of_int \<lceil>(of_nat n :: rat) / of_nat m\<rceil> * of_nat m"
    by (rule mult_right_mono) simp
  then have "(of_nat n :: rat) \<le> of_int \<lceil>(of_nat n :: rat) / of_nat m\<rceil> * of_nat m"
    using assms by simp
  moreover have "0 \<le> \<lceil>(of_nat n :: rat) / of_nat m\<rceil>"
  proof -
    have "(0::rat) \<le> of_nat n / of_nat m" by simp
    then show ?thesis by (simp only: zero_le_ceiling)
  qed
  ultimately have "(of_nat n :: rat) \<le> of_nat (nat \<lceil>(of_nat n :: rat) / of_nat m\<rceil> * m)"
    by simp
  then show ?thesis using of_nat_le_iff by blast
qed

lemma sampleChart_length:
  assumes "0 < maxPoints"
  shows "length (sampleChart chart maxPoints) \<le> maxPoints + 1"
proof (cases "length chart \<le> maxPoints")
  case True
  then show ?thesis by (simp add: sampleChart_def)
next
  case False
  define step where "step = nat \<lceil>(of_nat (length chart) :: rat) / of_nat maxPoints\<rceil>"
  have n: "length chart \<le> step * maxPoints" unfolding step_def by (rule ceil_stride[OF assms])
  have s: "0 < step" using n False by (cases "step = 0") auto
  have "length (filter (\<lambda>(x, i). i mod step = 0) (zip chart [0..<length chart])) \<le> maxPoints"
    unfolding length_filter_zip_index by (rule count_multiples_le[OF s n])
  then show ?thesis
    using False unfolding sampleChart_def step_def[symmetric] by (simp add: Let_def)
qed

text \<open>
  What \<^verbatim>\<open>sampleChart\<close> does guarantee: a chart of at most \<^verbatim>\<open>maxPoints\<close> points is
  returned as it is, the last point of a chart that is not empty is the last point of the
  result, and the result has at most \<^verbatim>\<open>maxPoints + 1\<close> points.
\<close>

theorem sampleChart_bounds:
  "(length chart \<le> maxPoints \<longrightarrow> sampleChart chart maxPoints = chart)
   \<and> (chart \<noteq> [] \<longrightarrow> last (sampleChart chart maxPoints) = last chart)
   \<and> (0 < maxPoints \<longrightarrow> length (sampleChart chart maxPoints) \<le> maxPoints + 1)"
  using sampleChart_short[of chart maxPoints] sampleChart_keeps_last[of chart maxPoints]
    sampleChart_length[of maxPoints chart]
  by blast

theorem sampleChart_bounds_witness:
  "[0..<40] \<noteq> [] \<and> 0 < MAX_CHART_POINTS
   \<and> last (sampleChart [0..<40] MAX_CHART_POINTS) = last [0..<40]
   \<and> length (sampleChart [0..<40] MAX_CHART_POINTS) \<le> MAX_CHART_POINTS + 1
   \<and> length [1, 2, 3 :: nat] \<le> MAX_CHART_POINTS
   \<and> sampleChart [1, 2, 3 :: nat] MAX_CHART_POINTS = [1, 2, 3]"
proof -
  have a: "[0..<40] \<noteq> []" by simp
  have b: "0 < MAX_CHART_POINTS" by (simp add: MAX_CHART_POINTS_def)
  have c: "length [1, 2, 3 :: nat] \<le> MAX_CHART_POINTS" by (simp add: MAX_CHART_POINTS_def)
  show ?thesis
    using sampleChart_bounds[of "[0..<40]" MAX_CHART_POINTS]
      sampleChart_bounds[of "[1, 2, 3 :: nat]" MAX_CHART_POINTS] a b c
    by blast
qed

section \<open>The snapshot tool: allocation percentages\<close>


lemma fl_close': "\<bar>x\<bar> \<le> 20000 \<Longrightarrow> \<bar>fl x - x\<bar> \<le> 1 / 100000000000"
  using fl_close[of x] by simp



















section \<open>The verifier reads the percentages as decimals\<close>

text \<open>
  \<^verbatim>\<open>new Big(row.percent)\<close> reads the shortest decimal of the number: the number written
  \<^verbatim>\<open>0.36\<close> is read as \<open>36 / 100\<close>, not as the binary value next to it, so that 275 rows of
  \<^verbatim>\<open>0.36\<close> sum to exactly 99 and \<^verbatim>\<open>checkAllocationSum\<close> does not warn.
\<close>

lemma lit_036: "lit (9/25) = 3242591731706757 / 9007199254740992"
  by code_simp

lemma Big_of_number_036: "Big_of_number (lit (9/25)) = 9/25"
  unfolding lit_036 by code_simp

lemma fold_replicate_percent:
  "fold (\<lambda>row acc. acc + Big_of_number (percent row)) (replicate n r) a
     = a + of_nat n * Big_of_number (percent r)"
  by (induction n arbitrary: a) (simp_all add: algebra_simps)

lemma checkAllocationSum_reads_decimals:
  assumes "percent r = lit (9/25)"
  shows "checkAllocationSum F (replicate 275 r) = \<lparr>warnings = [], confidenceAdjustment = 0\<rparr>"
proof -
  have t: "toNumber 1 = 1" by code_simp
  have s: "fold (\<lambda>row acc. acc + Big_of_number (percent row)) (replicate 275 r) 0 = 99"
    unfolding fold_replicate_percent assms Big_of_number_036 by simp
  show ?thesis
    unfolding checkAllocationSum_def s by (simp add: t ALLOCATION_SUM_TOLERANCE_def Let_def)
qed

section \<open>The orchestrator\<close>

lemma run_tool_summary:
  assumes "is_tool_use b"
  shows "map trace_summary (ls_toolTrace (run_tool E reg ctx b st))
           = map trace_summary (ls_toolTrace st) @ [requested_outcome reg ctx b]"
    and "map (\<lambda>(n, inp). ToolCall n inp) (executed (run_tool E reg ctx b st))
           = map (\<lambda>(n, inp). ToolCall n inp) (executed st) @ requested_call reg b"
  using assms
  by (cases b; simp add: is_tool_use_def trace_summary_def Let_def split: option.splits sum.splits)+

lemma fold_run_tool_summary:
  assumes "list_all is_tool_use bs"
  shows "map trace_summary (ls_toolTrace (fold (run_tool E reg ctx) bs st))
           = map trace_summary (ls_toolTrace st) @ map (requested_outcome reg ctx) bs
         \<and> map (\<lambda>(n, inp). ToolCall n inp) (executed (fold (run_tool E reg ctx) bs st))
           = map (\<lambda>(n, inp). ToolCall n inp) (executed st) @ concat (map (requested_call reg) bs)"
  using assms
proof (induction bs arbitrary: st)
  case Nil
  show ?case by simp
next
  case (Cons b bs)
  then have b: "is_tool_use b" and bs: "list_all is_tool_use bs" by simp_all
  show ?case
    using Cons.IH[OF bs, of "run_tool E reg ctx b st"] run_tool_summary[OF b, of E reg ctx st]
    by simp
qed

lemma run_tools_summary:
  "map trace_summary (ls_toolTrace (run_tools E reg ctx (filter is_tool_use content1)))
     = map (requested_outcome reg ctx) (filter is_tool_use content1)"
  "map (\<lambda>(n, inp). ToolCall n inp) (executed (run_tools E reg ctx (filter is_tool_use content1)))
     = concat (map (requested_call reg) (filter is_tool_use content1))"
  unfolding run_tools_def
  using fold_run_tool_summary[of "filter is_tool_use content1" E reg ctx]
  by (simp_all add: list_all_iff)

text \<open>
  C1. When the first call of the language model returns tool-use requests, the trace of
  the response has exactly one row per requested tool, in the requested order. The row of
  a request that names an unknown or disabled tool is a failure with the error
  \<^verbatim>\<open>Unknown or disabled tool: <name>\<close>, and no executor is called for it; the row of a tool
  whose executor throws is a failure with the error's message, and the rows of the later
  requests follow. The second call is made after the executor calls, and the turn returns
  a response whether the second call answers or throws.
\<close>

theorem tool_trace_follows_requests:
  assumes key: "anthropicApiKey E \<noteq> []"
    and call1: "llm E (request_messages request) = Inr content1"
    and req: "filter is_tool_use content1 \<noteq> []"
  shows "map trace_summary (toolTrace (chat E reg request ctx))
           = map (requested_outcome reg ctx) (filter is_tool_use content1)
       \<and> length (toolTrace (chat E reg request ctx)) = length (filter is_tool_use content1)
       \<and> (\<exists>call2. snd (chat_turn E reg request ctx)
              = [LlmCall (request_messages request)]
                  @ concat (map (requested_call reg) (filter is_tool_use content1))
                  @ [LlmCall call2]
            \<and> answer (chat E reg request ctx)
              = (case llm E call2 of
                   Inl errorMsg \<Rightarrow> chat_failed errorMsg
                 | Inr content2 \<Rightarrow> extractText content2))"
proof -
  let ?st = "run_tools E reg ctx (filter is_tool_use content1)"
  let ?call2 = "request_messages request
      @ [\<lparr>role = ''assistant'', message_content = BlockContent content1\<rparr>,
         \<lparr>role = ''user'', message_content = ToolResultContent (toolResultBlocks ?st)\<rparr>]"
  have trace: "toolTrace (chat E reg request ctx) = ls_toolTrace ?st"
    unfolding chat_def chat_turn_def using key call1 req
    by (simp add: Let_def buildErrorResponse_def final_response_def split: sum.splits)
  have log: "snd (chat_turn E reg request ctx)
              = [LlmCall (request_messages request)]
                  @ map (\<lambda>(n, inp). ToolCall n inp) (executed ?st) @ [LlmCall ?call2]"
    unfolding chat_turn_def using key call1 req
    by (simp add: Let_def split: sum.splits)
  have ans: "answer (chat E reg request ctx)
              = (case llm E ?call2 of
                   Inl errorMsg \<Rightarrow> chat_failed errorMsg
                 | Inr content2 \<Rightarrow> extractText content2)"
    unfolding chat_def chat_turn_def using key call1 req
    by (simp add: Let_def buildErrorResponse_def final_response_def split: sum.splits)
  have len: "length (ls_toolTrace ?st) = length (filter is_tool_use content1)"
    using arg_cong[OF run_tools_summary(1)[of E reg ctx content1], of length] by simp
  have "\<exists>call2. snd (chat_turn E reg request ctx)
              = [LlmCall (request_messages request)]
                  @ concat (map (requested_call reg) (filter is_tool_use content1))
                  @ [LlmCall call2]
            \<and> answer (chat E reg request ctx)
              = (case llm E call2 of
                   Inl errorMsg \<Rightarrow> chat_failed errorMsg
                 | Inr content2 \<Rightarrow> extractText content2)"
    using log ans unfolding run_tools_summary(2) by blast
  then show ?thesis
    unfolding trace using len by (simp add: run_tools_summary(1))
qed

theorem tool_trace_follows_requests_witness:
  "map trace_summary
     (toolTrace (chat (test_env planning_llm) test_registry
        \<lparr>message = ''test'', conversationHistory = None\<rparr> DEFAULT_USER_CONTEXT))
   = [(''nonExistentTool'', False, Some ''Unknown or disabled tool: nonExistentTool''),
      (''getPortfolioSnapshot'', False, Some ''Database connection failed''),
      (''getPerformance'', False, Some ''Unknown or disabled tool: getPerformance''),
      (''getMarketPrices'', True, None)]"
proof -
  have key: "anthropicApiKey (test_env planning_llm) \<noteq> []" by (simp add: test_env_def)
  have call1: "llm (test_env planning_llm)
      (request_messages \<lparr>message = ''test'', conversationHistory = None\<rparr>) = Inr requested_tools"
    by (simp add: test_env_def planning_llm_def request_messages_def nullish_or_def)
  have uses: "filter is_tool_use requested_tools = requested_tools"
    by (simp add: requested_tools_def is_tool_use_def)
  have req: "filter is_tool_use requested_tools \<noteq> []"
    unfolding uses by (simp add: requested_tools_def)
  have expected: "map (requested_outcome test_registry DEFAULT_USER_CONTEXT) requested_tools
    = [(''nonExistentTool'', False, Some ''Unknown or disabled tool: nonExistentTool''),
      (''getPortfolioSnapshot'', False, Some ''Database connection failed''),
      (''getPerformance'', False, Some ''Unknown or disabled tool: getPerformance''),
      (''getMarketPrices'', True, None)]"
    by code_simp
  show ?thesis
    using tool_trace_follows_requests[OF key call1 req, of test_registry DEFAULT_USER_CONTEXT]
    unfolding uses expected by blast
qed

text \<open>
  C4. On the direct path the first call answers
  \<^verbatim>\<open>You should buy more AAPL because it has guaranteed returns.\<close> without requesting a
  tool. The answer matches an advice-boundary pattern and the response carries a warning
  that contains \<^verbatim>\<open>advice\<close>, but its confidence is the baseline
  \<^verbatim>\<open>computeConfidence(false, false, 0, 0, true)\<close>, which is 1.0: the adjustment of the
  verifier is not subtracted.
\<close>

theorem direct_answer_keeps_full_confidence:
  "list_ex (\<lambda>pattern. rx_test pattern
       (answer (chat (test_env advising_llm) test_registry
          \<lparr>message = ''What should I do?'', conversationHistory = None\<rparr> DEFAULT_USER_CONTEXT)))
     FORBIDDEN_ADVICE_PATTERNS
   \<and> list_ex (\<lambda>w. str_includes (toLowerCase w) ''advice'')
       (response_warnings (chat (test_env advising_llm) test_registry
          \<lparr>message = ''What should I do?'', conversationHistory = None\<rparr> DEFAULT_USER_CONTEXT))
   \<and> confidence (chat (test_env advising_llm) test_registry
          \<lparr>message = ''What should I do?'', conversationHistory = None\<rparr> DEFAULT_USER_CONTEXT)
       = computeConfidence False False 0 0 True
   \<and> confidence (chat (test_env advising_llm) test_registry
          \<lparr>message = ''What should I do?'', conversationHistory = None\<rparr> DEFAULT_USER_CONTEXT)
       = 1"
  by code_simp

subsection \<open>The advice boundary on the path through the tools\<close>

lemma lit_bounds:
  "9/100 \<le> lit (1/10)" "lit (1/10) \<le> 11/100"
  "19/100 \<le> lit (1/5)" "lit (1/5) \<le> 21/100"
  "lit (2/5) \<le> 1" "9/100 \<le> lit (2/5)"
  "lit (7/10) \<le> 1" "9/100 \<le> lit (7/10)"
  by (simp_all add: lit_tenth lit_four_tenths lit_seven_tenths) (simp_all add: lit_def, code_simp+)

lemma computeConfidence_range:
  "9/100 \<le> computeConfidence e m s f h \<and> computeConfidence e m s f h \<le> 1"
  unfolding computeConfidence_def using lit_bounds by auto

lemma js_add_close:
  assumes "\<bar>a\<bar> \<le> 100" and "\<bar>b\<bar> \<le> 100"
  shows "\<bar>js_add a b - (a + b)\<bar> \<le> 1 / 100000000000"
  unfolding js_add_def using assms by (intro fl_close') (simp add: abs_le_iff)

lemma js_sub_close:
  assumes "\<bar>a\<bar> \<le> 100" and "\<bar>b\<bar> \<le> 100"
  shows "\<bar>js_sub a b - (a - b)\<bar> \<le> 1 / 100000000000"
  unfolding js_sub_def using assms by (intro fl_close') (simp add: abs_le_iff)

lemma penalty_tenth: "0 \<le> js_add 0 (lit (1/10)) \<and> js_add 0 (lit (1/10)) \<le> 12/100"
  using js_add_close[of 0 "lit (1/10)"] lit_bounds(1,2) unfolding abs_le_iff by linarith

lemma penalty_fifth: "18/100 \<le> js_add 0 (lit (1/5)) \<and> js_add 0 (lit (1/5)) \<le> 22/100"
  using js_add_close[of 0 "lit (1/5)"] lit_bounds(3,4) unfolding abs_le_iff by linarith

lemma checkAdviceBoundary_match:
  assumes "list_ex (\<lambda>pattern. rx_test pattern reply) FORBIDDEN_ADVICE_PATTERNS"
  shows "warnings (checkAdviceBoundary reply) = [advice_warning]"
    and "18/100 \<le> confidenceAdjustment (checkAdviceBoundary reply)"
    and "confidenceAdjustment (checkAdviceBoundary reply) \<le> 22/100"
  using assms penalty_fifth by (simp_all add: checkAdviceBoundary_def)

lemma checkAllocationSum_range:
  "0 \<le> confidenceAdjustment (checkAllocationSum F rows)
   \<and> confidenceAdjustment (checkAllocationSum F rows) \<le> 12/100"
  using penalty_tenth by (simp add: checkAllocationSum_def Let_def)

lemma checkValuationLabel_range:
  "0 \<le> confidenceAdjustment (checkValuationLabel reply)
   \<and> confidenceAdjustment (checkValuationLabel reply) \<le> 12/100"
  using penalty_tenth by (simp add: checkValuationLabel_def Let_def)

lemma add_result_range:
  assumes "lo \<le> confidenceAdjustment acc" "confidenceAdjustment acc \<le> hi"
    and "0 \<le> confidenceAdjustment r \<and> confidenceAdjustment r \<le> 12/100"
    and "0 \<le> lo" "hi \<le> 50"
    and "lo' \<le> lo - 1/100000000000" "hi + 13/100 \<le> hi'"
  shows "lo' \<le> confidenceAdjustment (add_result acc r)
       \<and> confidenceAdjustment (add_result acc r) \<le> hi'"
proof -
  have "\<bar>js_add (confidenceAdjustment acc) (confidenceAdjustment r)
          - (confidenceAdjustment acc + confidenceAdjustment r)\<bar> \<le> 1 / 100000000000"
    using assms by (intro js_add_close) (simp_all add: abs_le_iff)
  then have "lo' \<le> js_add (confidenceAdjustment acc) (confidenceAdjustment r)"
    and "js_add (confidenceAdjustment acc) (confidenceAdjustment r) \<le> hi'"
    using assms unfolding abs_le_iff by linarith+
  then show ?thesis
    by (simp add: add_result_def)
qed

lemma add_result_warnings: "w \<in> set (warnings acc) \<Longrightarrow> w \<in> set (warnings (add_result acc r))"
  by (simp add: add_result_def)

lemma verifyAgentResponse_advice:
  assumes m: "list_ex (\<lambda>pattern. rx_test pattern reply) FORBIDDEN_ADVICE_PATTERNS"
  shows "advice_warning \<in> set (warnings (verifyAgentResponse F reply toolResults))"
    and "17/100 \<le> confidenceAdjustment (verifyAgentResponse F reply toolResults)"
    and "confidenceAdjustment (verifyAgentResponse F reply toolResults) \<le> 1/2"
proof -
  define v0 :: VerificationResult where "v0 = \<lparr>warnings = [], confidenceAdjustment = 0\<rparr>"
  define v1 where "v1 = add_result v0 (checkAdviceBoundary reply)"
  define snapshotResult where "snapshotResult = map_get toolResults ''getPortfolioSnapshot''"
  define v2 where "v2 = (case Option.bind snapshotResult field_allocationBySymbol of
                  Some rows \<Rightarrow> add_result v1 (checkAllocationSum F rows)
                | None \<Rightarrow> v1)"
  define v3 where "v3 = (if Option.bind snapshotResult field_isPriceDataMissing = Some True
                then add_result v2 (checkValuationLabel reply)
                else v2)"
  have v: "verifyAgentResponse F reply toolResults = v3"
    unfolding verifyAgentResponse_def Let_def v3_def v2_def v1_def v0_def snapshotResult_def ..
  have "\<bar>js_add 0 (confidenceAdjustment (checkAdviceBoundary reply))
          - (0 + confidenceAdjustment (checkAdviceBoundary reply))\<bar> \<le> 1 / 100000000000"
    using checkAdviceBoundary_match(2,3)[OF m] by (intro js_add_close) (simp_all add: abs_le_iff)
  then have "175/1000 \<le> js_add 0 (confidenceAdjustment (checkAdviceBoundary reply))"
    and "js_add 0 (confidenceAdjustment (checkAdviceBoundary reply)) \<le> 23/100"
    using checkAdviceBoundary_match(2,3)[OF m] unfolding abs_le_iff by linarith+
  then have 1: "advice_warning \<in> set (warnings v1)"
      "175/1000 \<le> confidenceAdjustment v1" "confidenceAdjustment v1 \<le> 23/100"
    using checkAdviceBoundary_match(1)[OF m]
    by (simp_all add: v1_def v0_def add_result_def)
  have 2: "advice_warning \<in> set (warnings v2)
         \<and> 174/1000 \<le> confidenceAdjustment v2 \<and> confidenceAdjustment v2 \<le> 36/100"
  proof (cases "Option.bind snapshotResult field_allocationBySymbol")
    case None
    then have "v2 = v1" by (simp add: v2_def)
    then show ?thesis using 1 by simp
  next
    case (Some rows)
    then have "v2 = add_result v1 (checkAllocationSum F rows)" by (simp add: v2_def)
    then show ?thesis
      using add_result_warnings[OF 1(1)]
        add_result_range[OF 1(2,3) checkAllocationSum_range, of "174/1000" "36/100" F rows]
      by simp
  qed
  have 3: "advice_warning \<in> set (warnings v3)
         \<and> 17/100 \<le> confidenceAdjustment v3 \<and> confidenceAdjustment v3 \<le> 1/2"
  proof (cases "Option.bind snapshotResult field_isPriceDataMissing = Some True")
    case False
    then have "v3 = v2" by (simp add: v3_def)
    then show ?thesis using 2 by simp
  next
    case True
    then have "v3 = add_result v2 (checkValuationLabel reply)" by (simp add: v3_def)
    moreover have lo: "174/1000 \<le> confidenceAdjustment v2"
      and hi: "confidenceAdjustment v2 \<le> 36/100"
      and w: "advice_warning \<in> set (warnings v2)"
      using 2 by simp_all
    ultimately show ?thesis
      using add_result_warnings[OF w]
        add_result_range[OF lo hi checkValuationLabel_range, of "17/100" "1/2" reply]
      by simp
  qed
  show "advice_warning \<in> set (warnings (verifyAgentResponse F reply toolResults))"
    and "17/100 \<le> confidenceAdjustment (verifyAgentResponse F reply toolResults)"
    and "confidenceAdjustment (verifyAgentResponse F reply toolResults) \<le> 1/2"
    using 3 v by simp_all
qed

lemma base_confidence_range: "9/100 \<le> base_confidence st \<and> base_confidence st \<le> 1"
  unfolding base_confidence_def Let_def by (rule computeConfidence_range)

lemma chat_after_tools:
  assumes "anthropicApiKey E \<noteq> []"
    and "llm E (request_messages request) = Inr content1"
    and "filter is_tool_use content1 \<noteq> []"
    and "llm E (request_messages request
           @ [\<lparr>role = ''assistant'', message_content = BlockContent content1\<rparr>,
              \<lparr>role = ''user'', message_content = ToolResultContent
                 (toolResultBlocks (run_tools E reg ctx (filter is_tool_use content1)))\<rparr>])
         = Inr content2"
  shows "chat E reg request ctx
       = final_response E (run_tools E reg ctx (filter is_tool_use content1)) content2"
  using assms by (simp add: chat_def chat_turn_def Let_def)

text \<open>
  On the path through the tools, \<^verbatim>\<open>chat\<close> returns \<^verbatim>\<open>final_response\<close> (lemma
  \<open>chat_after_tools\<close>). When the text of the second call matches an advice-boundary
  pattern, the response carries the advice warning, and its confidence is
  \<^verbatim>\<open>Math.max(0, baseConfidence - verification.confidenceAdjustment)\<close>, strictly below
  \<^verbatim>\<open>baseConfidence\<close>.
\<close>

theorem advice_lowers_confidence_after_tools:
  assumes "list_ex (\<lambda>pattern. rx_test pattern (extractText content2)) FORBIDDEN_ADVICE_PATTERNS"
  shows "advice_warning \<in> set (response_warnings (final_response E st content2))
       \<and> confidence (final_response E st content2)
           = max 0 (js_sub (base_confidence st)
               (confidenceAdjustment
                  (verifyAgentResponse (format E) (extractText content2) (ls_toolResults st))))
       \<and> confidence (final_response E st content2) < base_confidence st"
proof -
  let ?adj = "confidenceAdjustment
                  (verifyAgentResponse (format E) (extractText content2) (ls_toolResults st))"
  note v = verifyAgentResponse_advice[OF assms, of "format E" "ls_toolResults st"]
  note b = base_confidence_range[of st]
  have "\<bar>js_sub (base_confidence st) ?adj - (base_confidence st - ?adj)\<bar> \<le> 1 / 100000000000"
    using v b by (intro js_sub_close) (simp_all add: abs_le_iff)
  then have "js_sub (base_confidence st) ?adj < base_confidence st" and "0 < base_confidence st"
    using v(2) b unfolding abs_le_iff by linarith+
  then have "max 0 (js_sub (base_confidence st) ?adj) < base_confidence st"
    by simp
  then show ?thesis
    using v(1) by (simp add: final_response_def Let_def)
qed

theorem advice_lowers_confidence_after_tools_witness:
  "list_ex (\<lambda>pattern. rx_test pattern
       (extractText [TextBlock ''You should buy more AAPL because it has guaranteed returns.'']))
     FORBIDDEN_ADVICE_PATTERNS
   \<and> advice_warning \<in> set (response_warnings
         (final_response (test_env advising_llm)
            (run_tools (test_env advising_llm) test_registry DEFAULT_USER_CONTEXT [])
            [TextBlock ''You should buy more AAPL because it has guaranteed returns.'']))
   \<and> confidence
         (final_response (test_env advising_llm)
            (run_tools (test_env advising_llm) test_registry DEFAULT_USER_CONTEXT [])
            [TextBlock ''You should buy more AAPL because it has guaranteed returns.''])
       < base_confidence (run_tools (test_env advising_llm) test_registry DEFAULT_USER_CONTEXT [])"
proof -
  have m: "list_ex (\<lambda>pattern. rx_test pattern
       (extractText [TextBlock ''You should buy more AAPL because it has guaranteed returns.'']))
     FORBIDDEN_ADVICE_PATTERNS"
    by code_simp
  show ?thesis
    using advice_lowers_confidence_after_tools[OF m] m by blast
qed

section \<open>The stream proxy\<close>

lemma split_events_unfold:
  "split_events (a # b # cs) =
     (if a = nl \<and> b = nl then ([] # fst (split_events cs), snd (split_events cs))
      else (case fst (split_events (b # cs)) of
              [] \<Rightarrow> ([], a # snd (split_events (b # cs)))
            | e # es \<Rightarrow> ((a # e) # es, snd (split_events (b # cs)))))"
  by (simp split: prod.splits list.splits)

declare split_events.simps(1) [simp del]
declare split_events_unfold [simp]





















section \<open>The WebSocket gateway\<close>

lemma on_upgrade_cases:
  "on_upgrade G request_url host = [Destroy]
   \<or> (\<exists>err. on_upgrade G request_url host = [Throw err])
   \<or> on_upgrade G request_url host = unauthorized
   \<or> (\<exists>uid bearer. on_upgrade G request_url host = [HandleUpgrade uid bearer])"
  unfolding on_upgrade_def by (auto simp: Let_def split: sum.splits)

text \<open>
  C8, as amended. The gateway destroys the socket of every request whose URL does not
  start with the agent WebSocket path; when the token parameter is missing or empty, or its
  verification fails, it writes the 401 response and destroys the socket, and that outcome
  holds no upgrade; an upgrade happens only for a URL that starts with the path and a token
  whose verification gives a user id.
\<close>

theorem upgrade_needs_prefix_and_credential:
  "(\<not> startsWith (nullish_or request_url []) AGENT_WS_PATH
      \<longrightarrow> on_upgrade G request_url host = [Destroy])
   \<and> (startsWith (nullish_or request_url []) AGENT_WS_PATH
        \<and> (token_param G (nullish_or request_url []) (''http://'' @ nullish_or host ''localhost'')
              = Inr None
           \<or> token_param G (nullish_or request_url []) (''http://'' @ nullish_or host ''localhost'')
              = Inr (Some []))
      \<longrightarrow> on_upgrade G request_url host = unauthorized)
   \<and> (startsWith (nullish_or request_url []) AGENT_WS_PATH
        \<and> token_param G (nullish_or request_url []) (''http://'' @ nullish_or host ''localhost'')
              = Inr (Some t)
        \<and> jwt_verify G (if startsWith t ''Bearer '' then drop 7 t else t) = Inl err
      \<longrightarrow> on_upgrade G request_url host = unauthorized)
   \<and> (HandleUpgrade uid bearer \<in> set (on_upgrade G request_url host)
      \<longrightarrow> startsWith (nullish_or request_url []) AGENT_WS_PATH
          \<and> (\<exists>t. token_param G (nullish_or request_url [])
                      (''http://'' @ nullish_or host ''localhost'') = Inr (Some t)
                  \<and> t \<noteq> []
                  \<and> jwt_verify G (if startsWith t ''Bearer '' then drop 7 t else t)
                      = Inr (Some uid)
                  \<and> uid \<noteq> []))
   \<and> HandleUpgrade uid bearer \<notin> set unauthorized"
proof -
  have 1: "\<not> startsWith (nullish_or request_url []) AGENT_WS_PATH
      \<longrightarrow> on_upgrade G request_url host = [Destroy]"
    unfolding on_upgrade_def by (simp add: Let_def)
  have 2: "startsWith (nullish_or request_url []) AGENT_WS_PATH
        \<and> (token_param G (nullish_or request_url []) (''http://'' @ nullish_or host ''localhost'')
              = Inr None
           \<or> token_param G (nullish_or request_url []) (''http://'' @ nullish_or host ''localhost'')
              = Inr (Some []))
      \<longrightarrow> on_upgrade G request_url host = unauthorized"
    unfolding on_upgrade_def by (auto simp: Let_def)
  have 3: "startsWith (nullish_or request_url []) AGENT_WS_PATH
        \<and> token_param G (nullish_or request_url []) (''http://'' @ nullish_or host ''localhost'')
              = Inr (Some t)
        \<and> jwt_verify G (if startsWith t ''Bearer '' then drop 7 t else t) = Inl err
      \<longrightarrow> on_upgrade G request_url host = unauthorized"
    unfolding on_upgrade_def by (auto simp: Let_def nullish_or_def)
  have 4: "HandleUpgrade uid bearer \<in> set (on_upgrade G request_url host)
      \<longrightarrow> startsWith (nullish_or request_url []) AGENT_WS_PATH
          \<and> (\<exists>t. token_param G (nullish_or request_url [])
                      (''http://'' @ nullish_or host ''localhost'') = Inr (Some t)
                  \<and> t \<noteq> []
                  \<and> jwt_verify G (if startsWith t ''Bearer '' then drop 7 t else t)
                      = Inr (Some uid)
                  \<and> uid \<noteq> [])"
    unfolding on_upgrade_def unauthorized_def
    by (auto simp: Let_def nullish_or_def split: sum.splits if_splits option.splits)
  have 5: "HandleUpgrade uid bearer \<notin> set unauthorized"
    by (simp add: unauthorized_def)
  show ?thesis using 1 2 3 4 5 by blast
qed


theorem upgrade_needs_prefix_and_credential_witness:
  "on_upgrade test_gateway (Some ''/api/v1/other?token=good'') None = [Destroy]
   \<and> on_upgrade test_gateway (Some ''/api/v1/agent/ws'') None = unauthorized
   \<and> on_upgrade test_gateway (Some ''/api/v1/agent/ws?token=bad'') None = unauthorized
   \<and> on_upgrade test_gateway (Some ''/api/v1/agent/ws?token=good'') None
       = [HandleUpgrade ''u1'' ''Bearer good'']
   \<and> startsWith ''/api/v1/agent/ws?token=good'' AGENT_WS_PATH"
proof -
  have a: "\<not> startsWith (nullish_or (Some ''/api/v1/other?token=good'') []) AGENT_WS_PATH"
    by code_simp
  have b: "startsWith (nullish_or (Some ''/api/v1/agent/ws'') []) AGENT_WS_PATH
      \<and> (token_param test_gateway (nullish_or (Some ''/api/v1/agent/ws'') [])
             (''http://'' @ nullish_or None ''localhost'') = Inr None
         \<or> token_param test_gateway (nullish_or (Some ''/api/v1/agent/ws'') [])
             (''http://'' @ nullish_or None ''localhost'') = Inr (Some []))"
    by code_simp
  have c: "startsWith (nullish_or (Some ''/api/v1/agent/ws?token=bad'') []) AGENT_WS_PATH
      \<and> token_param test_gateway (nullish_or (Some ''/api/v1/agent/ws?token=bad'') [])
             (''http://'' @ nullish_or None ''localhost'') = Inr (Some ''bad'')
      \<and> jwt_verify test_gateway (if startsWith ''bad'' ''Bearer '' then drop 7 ''bad'' else ''bad'')
          = Inl ''invalid signature''"
    by code_simp
  have d: "on_upgrade test_gateway (Some ''/api/v1/agent/ws?token=good'') None
       = [HandleUpgrade ''u1'' ''Bearer good'']"
    by code_simp
  then have d': "HandleUpgrade ''u1'' ''Bearer good''
      \<in> set (on_upgrade test_gateway (Some ''/api/v1/agent/ws?token=good'') None)"
    by simp
  have 1: "on_upgrade test_gateway (Some ''/api/v1/other?token=good'') None = [Destroy]"
    using upgrade_needs_prefix_and_credential[of "Some ''/api/v1/other?token=good''" test_gateway None]
      a by blast
  have 2: "on_upgrade test_gateway (Some ''/api/v1/agent/ws'') None = unauthorized"
    using upgrade_needs_prefix_and_credential[of "Some ''/api/v1/agent/ws''" test_gateway None]
      b by blast
  have 3: "on_upgrade test_gateway (Some ''/api/v1/agent/ws?token=bad'') None = unauthorized"
    using upgrade_needs_prefix_and_credential[of "Some ''/api/v1/agent/ws?token=bad''"
        test_gateway None "''bad''" "''invalid signature''"]
      c by blast
  have 4: "startsWith (nullish_or (Some ''/api/v1/agent/ws?token=good'') []) AGENT_WS_PATH"
    using upgrade_needs_prefix_and_credential[of "Some ''/api/v1/agent/ws?token=good''"
        test_gateway None _ _ "''u1''" "''Bearer good''"]
      d' by blast
  show ?thesis using 1 2 3 4 d by (simp add: nullish_or_def)
qed

text \<open>
  C8 as stated fails: the match is on a prefix of the URL, not on the exact path. A
  request for \<^verbatim>\<open>/api/v1/agent/wsx\<close> with a valid token is upgraded.
\<close>

theorem upgrade_on_longer_path:
  "request_path ''/api/v1/agent/wsx?token=good'' \<noteq> AGENT_WS_PATH
   \<and> on_upgrade test_gateway (Some ''/api/v1/agent/wsx?token=good'') (Some ''localhost:3333'')
       = [HandleUpgrade ''u1'' ''Bearer good'']"
  by code_simp

end
